theory Spec2Isabelle
  imports Main "HOL-Library.Sublist" "HOL-Library.Char_ord" "HOL-Library.List_Lexorder"
begin

section \<open>JavaScript values\<close>

text \<open>
  The client works on loosely typed ActivityPub JSON. A value is one of the JSON shapes plus
  \<open>undefined\<close>. An object is an association list from property names to values; the first
  binding of a name is the one that is read. JSON numbers do not occur in any property the
  modelled code reads and are left out (they would need floating point).
\<close>

datatype jsval =
    Undefined
  | Null
  | Bool bool
  | Str string
  | Arr "jsval list"
  | Obj "(string \<times> jsval) list"

text \<open>What the code can throw: a \<open>TypeError\<close> of the runtime, or \<open>new Error(message)\<close>.\<close>

datatype error = TypeError | Error string

text \<open>Truthiness as \<open>if (v)\<close>, \<open>!v\<close>, \<open>a && b\<close> and \<open>a || b\<close> test it.\<close>

fun truthy :: "jsval \<Rightarrow> bool" where
  "truthy Undefined = False"
| "truthy Null = False"
| "truthy (Bool b) = b"
| "truthy (Str s) = (s \<noteq> [])"
| "truthy (Arr xs) = True"
| "truthy (Obj kvs) = True"

text \<open>
  \<open>v.k\<close>: reading a property of \<open>undefined\<close> or \<open>null\<close> throws; an object yields the bound
  value or \<open>undefined\<close>; strings, booleans and arrays have none of the property names the
  source reads (\<open>id\<close>, \<open>type\<close>, \<open>actor\<close>, \<open>url\<close>, ...), so they yield \<open>undefined\<close>.
\<close>

fun getp :: "jsval \<Rightarrow> string \<Rightarrow> error + jsval" where
  "getp Undefined k = Inl TypeError"
| "getp Null k = Inl TypeError"
| "getp (Obj kvs) k = Inr (case map_of kvs k of None \<Rightarrow> Undefined | Some v \<Rightarrow> v)"
| "getp v k = Inr Undefined"

text \<open>\<open>v?.k\<close>: optional chaining short-circuits to \<open>undefined\<close> instead of throwing.\<close>

fun getq :: "jsval \<Rightarrow> string \<Rightarrow> jsval" where
  "getq (Obj kvs) k = (case map_of kvs k of None \<Rightarrow> Undefined | Some v \<Rightarrow> v)"
| "getq v k = Undefined"

text \<open>\<open>a || b\<close> and \<open>a ?? b\<close> on values.\<close>

definition js_or :: "jsval \<Rightarrow> jsval \<Rightarrow> jsval" where
  "js_or a b = (if truthy a then a else b)"

definition js_nullish :: "jsval \<Rightarrow> jsval \<Rightarrow> jsval" where
  "js_nullish a b = (if a = Undefined \<or> a = Null then b else a)"

text \<open>Sequencing of computations that may throw.\<close>

fun bindE :: "error + 'a \<Rightarrow> ('a \<Rightarrow> error + 'b) \<Rightarrow> error + 'b" where
  "bindE (Inl e) f = Inl e"
| "bindE (Inr v) f = f v"

text \<open>Computations run in order: the first throw ends the run.\<close>

fun sequenceE :: "(error + 'a) list \<Rightarrow> error + 'a list" where
  "sequenceE [] = Inr []"
| "sequenceE (m # ms) = bindE m (\<lambda>x. bindE (sequenceE ms) (\<lambda>xs. Inr (x # xs)))"

fun join_comma :: "string list \<Rightarrow> string" where
  "join_comma [] = []"
| "join_comma [s] = s"
| "join_comma (s # t # ss) = s @ '','' @ join_comma (t # ss)"

text \<open>
  String conversion, as a template literal \<open>`${v}`\<close> performs it. An array joins the
  conversions of its elements with commas (\<open>undefined\<close> and \<open>null\<close> elements print as
  nothing). An object is converted by its \<open>toString\<close> method: the inherited one prints
  \<open>[object Object]\<close>; an own property \<open>toString\<close> hides it, and since no JSON value is
  callable (and \<open>valueOf\<close> yields no primitive either) the conversion then throws a
  TypeError.
\<close>

fun to_string :: "jsval \<Rightarrow> error + string" where
  "to_string Undefined = Inr ''undefined''"
| "to_string Null = Inr ''null''"
| "to_string (Bool b) = Inr (if b then ''true'' else ''false'')"
| "to_string (Str s) = Inr s"
| "to_string (Arr xs) =
     bindE (sequenceE (map (\<lambda>x. if x = Undefined \<or> x = Null then Inr [] else to_string x) xs))
       (\<lambda>ss. Inr (join_comma ss))"
| "to_string (Obj kvs) =
     (if map_of kvs ''toString'' = None then Inr ''[object Object]'' else Inl TypeError)"

section \<open>The low-level client: \<open>Activities\<close>\<close>

text \<open>
  The fields of an \<open>Activities\<close> instance. \<open>localImmer\<close> is \<open>undefined\<close> (\<open>None\<close>) or the
  origin the constructor computed; the two cursors start as \<open>null\<close>.
\<close>

record activities =
  actor :: jsval
  homeImmer :: string
  place :: jsval
  token :: jsval
  localImmer :: "string option"
  nextInboxPage :: jsval
  nextOutboxPage :: jsval

definition JSONLDMime :: string where
  "JSONLDMime = ''application/activity+json''"

definition PublicAddress :: string where
  "PublicAddress = ''as:Public''"

text \<open>
  \<open>trustedIRI\<close> on a string identifier:
  \<open>(this.localImmer && IRI.startsWith(this.localImmer)) || IRI.startsWith(this.homeImmer)\<close>.
  An empty \<open>localImmer\<close> string is falsy, like \<open>undefined\<close>.
\<close>

definition trustedIRI_str :: "activities \<Rightarrow> string \<Rightarrow> bool" where
  "trustedIRI_str a iri =
     ((case localImmer a of None \<Rightarrow> False | Some l \<Rightarrow> l \<noteq> [] \<and> prefix l iri)
      \<or> prefix (homeImmer a) iri)"

text \<open>On any value: only a string has \<open>startsWith\<close>; calling it on anything else throws.\<close>

fun trustedIRI :: "activities \<Rightarrow> jsval \<Rightarrow> error + bool" where
  "trustedIRI a (Str iri) = Inr (trustedIRI_str a iri)"
| "trustedIRI a v = Inl TypeError"

subsection \<open>The network and the console\<close>

text \<open>
  Every \<open>window.fetch\<close> and every console line is recorded, in order, in an event log that
  the operations thread through. The remote side is a parameter: it answers a request,
  possibly depending on everything that was logged before, with a response or with the
  error the fetch promise rejects with.
\<close>

datatype reqbody =
    NoBody
  | JsonBody jsval
  | FormBody "(string \<times> jsval) list"
  | MultipartBody jsval jsval jsval

record request =
  url :: jsval
  meth :: string
  headers :: "(string \<times> string) list"
  body :: reqbody

text \<open>
  What the code reads of a response: \<open>ok\<close>, \<open>status\<close> and \<open>body\<close> as an error message
  prints them, the outcome of \<open>json()\<close> and \<open>text()\<close>, and \<open>headers.get('Location')\<close>.
\<close>

record response =
  ok :: bool
  http_status :: string
  body_printed :: string
  json :: "error + jsval"
  text_of :: "error + string"
  location :: jsval

datatype event = Fetch request | ConsoleInfo string

type_synonym network = "event list \<Rightarrow> request \<Rightarrow> error + response"

text \<open>
  \<open>window.fetch\<close> converts its first argument to a string before anything is sent; when
  that conversion throws, no request is issued.
\<close>

definition window_fetch :: "network \<Rightarrow> request \<Rightarrow> event list \<Rightarrow> (error + response) \<times> event list" where
  "window_fetch net req log =
     (case to_string (url req) of
        Inl e \<Rightarrow> (Inl e, log)
      | Inr u \<Rightarrow> (net log req, log @ [Fetch req]))"

text \<open>The activity objects that left the process: the JSON bodies and the \<open>object\<close> form parts.\<close>

fun posted :: "event list \<Rightarrow> jsval list" where
  "posted [] = []"
| "posted (Fetch r # es) =
     (case body r of JsonBody b \<Rightarrow> b # posted es
      | MultipartBody f i b \<Rightarrow> b # posted es
      | _ \<Rightarrow> posted es)"
| "posted (ConsoleInfo s # es) = posted es"

subsection \<open>\<open>getObject\<close>, \<open>postActivity\<close>, \<open>postMedia\<close>\<close>

text \<open>The template \<open>`Bearer ${this.#token}`\<close>.\<close>

definition bearer :: "activities \<Rightarrow> error + string" where
  "bearer a = bindE (to_string (token a)) (\<lambda>t. Inr (''Bearer '' @ t))"

text \<open>The headers \<open>getObject\<close> builds before it looks at the identifier.\<close>

definition accept_headers :: "activities \<Rightarrow> error + (string \<times> string) list" where
  "accept_headers a =
     (if truthy (token a)
      then bindE (bearer a) (\<lambda>b. Inr [(''Accept'', JSONLDMime), (''Authorization'', b)])
      else Inr [(''Accept'', JSONLDMime)])"

text \<open>The tail of \<open>getObject\<close>: \<open>if (!result.ok) throw ...; return result.json()\<close>.\<close>

definition object_result :: "(error + response) \<times> event list \<Rightarrow> (error + jsval) \<times> event list" where
  "object_result x =
     (case x of
        (Inl e, log) \<Rightarrow> (Inl e, log)
      | (Inr r, log) \<Rightarrow>
          (if \<not> ok r then (Inl (Error ''Object fetch error undefined''), log)
           else (json r, log)))"

definition getObject :: "network \<Rightarrow> activities \<Rightarrow> jsval \<Rightarrow> event list \<Rightarrow> (error + jsval) \<times> event list" where
  "getObject net a iri log =
     (case accept_headers a of
        Inl e \<Rightarrow> (Inl e, log)
      | Inr hs \<Rightarrow>
          (case trustedIRI a iri of
             Inl e \<Rightarrow> (Inl e, log)
           | Inr True \<Rightarrow>
               object_result (window_fetch net
                 \<lparr>url = iri, meth = ''GET'', headers = hs, body = NoBody\<rparr> log)
           | Inr False \<Rightarrow>
               (case getp (actor a) ''endpoints'' of
                  Inl e \<Rightarrow> (Inl e, log)
                | Inr ep \<Rightarrow>
                    (if truthy (getq ep ''proxyUrl'') then
                       object_result (window_fetch net
                         \<lparr>url = getq ep ''proxyUrl'', meth = ''POST'', headers = hs,
                          body = FormBody [(''id'', iri)]\<rparr> log)
                     else (Inl (Error ''Home immer does not support object fetch proxy''), log)))))"

definition postActivity :: "network \<Rightarrow> activities \<Rightarrow> jsval \<Rightarrow> event list \<Rightarrow> (error + jsval) \<times> event list" where
  "postActivity net a activity log =
     (case getp (actor a) ''outbox'' of
        Inl e \<Rightarrow> (Inl e, log)
      | Inr outbox \<Rightarrow>
          (case trustedIRI a outbox of
             Inl e \<Rightarrow> (Inl e, log)
           | Inr False \<Rightarrow> (Inl (Error ''Invalid outbox address''), log)
           | Inr True \<Rightarrow>
               (case bearer a of
                  Inl e \<Rightarrow> (Inl e, log)
                | Inr b \<Rightarrow>
                    (case window_fetch net
                       \<lparr>url = outbox, meth = ''POST'',
                        headers = [(''Content-Type'', JSONLDMime), (''Authorization'', b)],
                        body = JsonBody activity\<rparr> log of
                       (Inl e, log') \<Rightarrow> (Inl e, log')
                     | (Inr r, log') \<Rightarrow>
                         (if \<not> ok r then
                            (Inl (Error (''Error creating avatar: '' @ http_status r @ '' ''
                                         @ body_printed r)), log')
                          else (Inr (location r), log'))))))"

definition postMedia ::
  "network \<Rightarrow> activities \<Rightarrow> jsval \<Rightarrow> jsval \<Rightarrow> jsval \<Rightarrow> event list \<Rightarrow> (error + jsval) \<times> event list" where
  "postMedia net a activity file icon log =
     (case bindE (getp (actor a) ''endpoints'') (\<lambda>ep. getp ep ''uploadMedia'') of
        Inl e \<Rightarrow> (Inl e, log)
      | Inr upload \<Rightarrow>
          (case trustedIRI a upload of
             Inl e \<Rightarrow> (Inl e, log)
           | Inr False \<Rightarrow> (Inl (Error ''Missing/invalid upload media endpoint''), log)
           | Inr True \<Rightarrow>
               (case bearer a of
                  Inl e \<Rightarrow> (Inl e, log)
                | Inr b \<Rightarrow>
                    (case window_fetch net
                       \<lparr>url = upload, meth = ''POST'', headers = [(''Authorization'', b)],
                        body = MultipartBody file icon activity\<rparr> log of
                       (Inl e, log') \<Rightarrow> (Inl e, log')
                     | (Inr r, log') \<Rightarrow>
                         (if \<not> ok r then
                            (case text_of r of
                               Inl e \<Rightarrow> (Inl e, log')
                             | Inr t \<Rightarrow>
                                 (Inl (Error (''Error creating avatar: '' @ http_status r @ '' '' @ t)),
                                  log'))
                          else (Inr (location r), log'))))))"

subsection \<open>Collection fetchers\<close>

text \<open>
  \<open>inbox\<close> and \<open>outbox\<close> have the same body, on their own cursor and their own collection
  root. \<open>collection_page\<close> is that body up to the assignment of the cursor: the page it
  yields (\<open>undefined\<close> when nothing was fetched).
\<close>

definition collection_page ::
  "network \<Rightarrow> activities \<Rightarrow> jsval \<Rightarrow> string \<Rightarrow> event list \<Rightarrow> (error + jsval) \<times> event list" where
  "collection_page net a cursor root log =
     (if cursor = Null then
        (case getp (actor a) root of
           Inl e \<Rightarrow> (Inl e, log)
         | Inr iri \<Rightarrow>
             (case getObject net a iri log of
                (Inl e, log1) \<Rightarrow> (Inl e, log1)
              | (Inr col, log1) \<Rightarrow>
                  (case getp col ''orderedItems'' of
                     Inl e \<Rightarrow> (Inl e, log1)
                   | Inr items \<Rightarrow>
                       (if \<not> truthy items \<and> truthy (getq col ''first'')
                        then getObject net a (getq col ''first'') log1
                        else (Inr col, log1)))))
      else if truthy cursor then getObject net a cursor log
      else (Inr Undefined, log))"

text \<open>
  The result, the instance with its cursor set to \<open>col?.next\<close>, and the log. When the body
  throws, the assignment is not reached and the cursor keeps its value.
\<close>

definition inbox :: "network \<Rightarrow> activities \<Rightarrow> event list \<Rightarrow> (error + jsval) \<times> activities \<times> event list" where
  "inbox net a log =
     (case collection_page net a (nextInboxPage a) ''inbox'' log of
        (Inl e, log') \<Rightarrow> (Inl e, a, log')
      | (Inr col, log') \<Rightarrow> (Inr col, a\<lparr>nextInboxPage := getq col ''next''\<rparr>, log'))"

definition outbox :: "network \<Rightarrow> activities \<Rightarrow> event list \<Rightarrow> (error + jsval) \<times> activities \<times> event list" where
  "outbox net a log =
     (case collection_page net a (nextOutboxPage a) ''outbox'' log of
        (Inl e, log') \<Rightarrow> (Inl e, a, log')
      | (Inr col, log') \<Rightarrow> (Inr col, a\<lparr>nextOutboxPage := getq col ''next''\<rparr>, log'))"

subsection \<open>Activity-specific posting methods\<close>

text \<open>
  Each method evaluates an object literal, which throws when it reads a property of
  \<open>undefined\<close> or \<open>null\<close>, and hands the object to \<open>postActivity\<close>. The literal is the
  function \<open>*_activity\<close>; \<open>post_built\<close> is the call of \<open>postActivity\<close> on it.
\<close>

definition post_built ::
  "network \<Rightarrow> activities \<Rightarrow> error + jsval \<Rightarrow> event list \<Rightarrow> (error + jsval) \<times> event list" where
  "post_built net a built log =
     (case built of Inl e \<Rightarrow> (Inl e, log) | Inr activity \<Rightarrow> postActivity net a activity log)"

definition accept_activity :: "activities \<Rightarrow> jsval \<Rightarrow> error + jsval" where
  "accept_activity a follow =
     bindE (getp (actor a) ''id'') (\<lambda>aid.
     bindE (getp follow ''id'') (\<lambda>fid.
     bindE (getp follow ''actor'') (\<lambda>factor.
       Inr (Obj [(''type'', Str ''Accept''), (''actor'', aid), (''object'', fid), (''to'', factor),
                 (''summary'', Str ''<span>Accepted your a friend request</span>'')]))))"

definition accept :: "network \<Rightarrow> activities \<Rightarrow> jsval \<Rightarrow> event list \<Rightarrow> (error + jsval) \<times> event list" where
  "accept net a follow log = post_built net a (accept_activity a follow) log"

text \<open>
  \<open>add\<close>: the object is the argument itself when it is a string, else its \<open>id\<close>; the target
  must have \<open>startsWith\<close>, so it is a string.
\<close>

definition add_activity :: "activities \<Rightarrow> jsval \<Rightarrow> jsval \<Rightarrow> error + jsval" where
  "add_activity a activity target =
     bindE (getp (actor a) ''id'') (\<lambda>aid.
     bindE (case activity of Str s \<Rightarrow> Inr activity | _ \<Rightarrow> getp activity ''id'') (\<lambda>obj.
     bindE (case target of
              Str t \<Rightarrow>
                (if prefix ''https://'' t then Inr (Str t)
                 else bindE (to_string (getq (actor a) ''preferredUsername'')) (\<lambda>u.
                        Inr (Str (''https://'' @ homeImmer a @ ''/collection/'' @ u @ ''/'' @ t))))
            | _ \<Rightarrow> Inl TypeError) (\<lambda>tgt.
       Inr (Obj [(''type'', Str ''Add''), (''actor'', aid), (''object'', obj), (''target'', tgt)]))))"

definition add :: "network \<Rightarrow> activities \<Rightarrow> jsval \<Rightarrow> jsval \<Rightarrow> event list \<Rightarrow> (error + jsval) \<times> event list" where
  "add net a activity target log = post_built net a (add_activity a activity target) log"

text \<open>\<open>arrive (place = this.place)\<close>: an \<open>undefined\<close> argument takes the default.\<close>

definition arrive_activity :: "activities \<Rightarrow> jsval \<Rightarrow> error + jsval" where
  "arrive_activity a place_arg =
     (let p = (if place_arg = Undefined then place a else place_arg) in
      bindE (getp (actor a) ''id'') (\<lambda>aid.
      bindE (getp p ''url'') (\<lambda>purl.
      bindE (getp p ''name'') (\<lambda>pname.
      bindE (to_string purl) (\<lambda>u.
      bindE (to_string pname) (\<lambda>n.
        Inr (Obj [(''type'', Str ''Arrive''), (''actor'', aid), (''target'', p),
                  (''to'', getq (actor a) ''followers''),
                  (''summary'', Str (''<span>Arrived at <a href=\"'' @ u @ ''\">'' @ n
                                     @ ''</a></span>''))])))))))"

definition arrive :: "network \<Rightarrow> activities \<Rightarrow> jsval \<Rightarrow> event list \<Rightarrow> (error + jsval) \<times> event list" where
  "arrive net a place_arg log = post_built net a (arrive_activity a place_arg) log"

definition leave_activity :: "activities \<Rightarrow> jsval \<Rightarrow> error + jsval" where
  "leave_activity a place_arg =
     (let p = (if place_arg = Undefined then place a else place_arg) in
      bindE (getp (actor a) ''id'') (\<lambda>aid.
      bindE (getp p ''url'') (\<lambda>purl.
      bindE (getp p ''name'') (\<lambda>pname.
      bindE (to_string purl) (\<lambda>u.
      bindE (to_string pname) (\<lambda>n.
        Inr (Obj [(''type'', Str ''Leave''), (''actor'', aid), (''target'', p),
                  (''to'', getq (actor a) ''followers''),
                  (''summary'', Str (''<span>Left <a href=\"'' @ u @ ''\">'' @ n
                                     @ ''</a></span>''))])))))))"

definition leave :: "network \<Rightarrow> activities \<Rightarrow> jsval \<Rightarrow> event list \<Rightarrow> (error + jsval) \<times> event list" where
  "leave net a place_arg log = post_built net a (leave_activity a place_arg) log"

definition block_activity :: "activities \<Rightarrow> jsval \<Rightarrow> error + jsval" where
  "block_activity a blockeeId =
     bindE (getp (actor a) ''id'') (\<lambda>aid.
       Inr (Obj [(''type'', Str ''Block''), (''actor'', aid), (''object'', blockeeId)]))"

definition block :: "network \<Rightarrow> activities \<Rightarrow> jsval \<Rightarrow> event list \<Rightarrow> (error + jsval) \<times> event list" where
  "block net a blockeeId log = post_built net a (block_activity a blockeeId) log"

definition create_activity :: "activities \<Rightarrow> jsval \<Rightarrow> error + jsval" where
  "create_activity a object =
     bindE (getp (actor a) ''id'') (\<lambda>aid.
       Inr (Obj [(''type'', Str ''Create''), (''actor'', aid), (''object'', object)]))"

text \<open>
  \<open>create\<close> chains \<open>.then(res => { if (!res.ok) throw new Error('Error creating', ...);
  return this.getObject(res.headers.get('Location')) })\<close> on the posted location \<open>res\<close>.
  No JSON value has a callable \<open>headers.get\<close>, so a truthy \<open>res.ok\<close> ends in a TypeError.
\<close>

definition create :: "network \<Rightarrow> activities \<Rightarrow> jsval \<Rightarrow> event list \<Rightarrow> (error + jsval) \<times> event list" where
  "create net a object log =
     (case post_built net a (create_activity a object) log of
        (Inl e, log') \<Rightarrow> (Inl e, log')
      | (Inr res, log') \<Rightarrow>
          (case getp res ''ok'' of
             Inl e \<Rightarrow> (Inl e, log')
           | Inr okv \<Rightarrow>
               (if \<not> truthy okv then (Inl (Error ''Error creating''), log')
                else (Inl TypeError, log'))))"

definition follow_activity :: "activities \<Rightarrow> jsval \<Rightarrow> error + jsval" where
  "follow_activity a targetId =
     bindE (getp (actor a) ''id'') (\<lambda>aid.
       Inr (Obj [(''type'', Str ''Follow''), (''actor'', aid), (''object'', targetId), (''to'', targetId),
                 (''summary'', Str ''<span>Sent you a friend request</span>'')]))"

definition follow :: "network \<Rightarrow> activities \<Rightarrow> jsval \<Rightarrow> event list \<Rightarrow> (error + jsval) \<times> event list" where
  "follow net a targetId log = post_built net a (follow_activity a targetId) log"

definition reject_activity :: "activities \<Rightarrow> jsval \<Rightarrow> jsval \<Rightarrow> error + jsval" where
  "reject_activity a objectId recipientId =
     bindE (getp (actor a) ''id'') (\<lambda>aid.
       Inr (Obj [(''type'', Str ''Reject''), (''actor'', aid), (''object'', objectId), (''to'', recipientId)]))"

definition reject :: "network \<Rightarrow> activities \<Rightarrow> jsval \<Rightarrow> jsval \<Rightarrow> event list \<Rightarrow> (error + jsval) \<times> event list" where
  "reject net a objectId recipientId log = post_built net a (reject_activity a objectId recipientId) log"

definition undo_activity :: "activities \<Rightarrow> jsval \<Rightarrow> error + jsval" where
  "undo_activity a activity =
     bindE (getp (actor a) ''id'') (\<lambda>aid.
     bindE (getp activity ''id'') (\<lambda>oid.
     bindE (getp activity ''to'') (\<lambda>oto.
       Inr (Obj [(''type'', Str ''Undo''), (''actor'', aid), (''object'', oid), (''to'', oto)]))))"

definition undo :: "network \<Rightarrow> activities \<Rightarrow> jsval \<Rightarrow> event list \<Rightarrow> (error + jsval) \<times> event list" where
  "undo net a activity log = post_built net a (undo_activity a activity) log"

text \<open>
  Writing a property: an existing binding is replaced in place, a new one is appended.
\<close>

fun set_prop :: "(string \<times> jsval) list \<Rightarrow> string \<Rightarrow> jsval \<Rightarrow> (string \<times> jsval) list" where
  "set_prop [] k v = [(k, v)]"
| "set_prop ((k', v') # kvs) k v = (if k' = k then (k, v) # kvs else (k', v') # set_prop kvs k v)"

text \<open>
  \<open>update.id = this.actor.id\<close> in strict mode: it throws on \<open>undefined\<close>, \<open>null\<close> and on
  primitives; on an array the new property is not an element and is invisible in JSON.
\<close>

definition updateProfile_activity :: "activities \<Rightarrow> jsval \<Rightarrow> error + jsval" where
  "updateProfile_activity a update =
     bindE (getp (actor a) ''id'') (\<lambda>aid.
     bindE (case update of
              Obj kvs \<Rightarrow> Inr (Obj (set_prop kvs ''id'' aid))
            | Arr xs \<Rightarrow> Inr (Arr xs)
            | _ \<Rightarrow> Inl TypeError) (\<lambda>upd.
       Inr (Obj [(''type'', Str ''Update''), (''actor'', aid), (''object'', upd),
                 (''to'', getq (actor a) ''followers'')])))"

definition updateProfile :: "network \<Rightarrow> activities \<Rightarrow> jsval \<Rightarrow> event list \<Rightarrow> (error + jsval) \<times> event list" where
  "updateProfile net a update log = post_built net a (updateProfile_activity a update) log"

definition friends :: "network \<Rightarrow> activities \<Rightarrow> event list \<Rightarrow> (error + jsval) \<times> event list" where
  "friends net a log =
     (case getp (actor a) ''endpoints'' of
        Inl e \<Rightarrow> (Inl e, log)
      | Inr ep \<Rightarrow>
          (if getq ep ''friends'' = Undefined \<or> getq ep ''friends'' = Null then
             (case to_string (getq (actor a) ''id'') of
                Inl e \<Rightarrow> (Inl e, log)
              | Inr i \<Rightarrow> getObject net a (Str (i @ ''/friends'')) log)
           else getObject net a (getq ep ''friends'') log))"

subsection \<open>Arrays shared with the caller\<close>

text \<open>
  \<open>note\<close>, \<open>image\<close>, \<open>video\<close> and \<open>model\<close> receive the addressee array \<open>to\<close> by reference, copy
  it with \<open>to.slice()\<close> and \<open>push\<close> onto the copy. To tell the caller's array from the copy,
  arrays live in a store: a list of arrays, an array reference being an index into it.
  A reference outside the store stands for an argument without a \<open>slice\<close> method.
\<close>

type_synonym heap = "jsval list list"

definition slice :: "heap \<Rightarrow> nat \<Rightarrow> error + (nat \<times> heap)" where
  "slice h r = (if r < length h then Inr (length h, h @ [h ! r]) else Inl TypeError)"

definition push :: "heap \<Rightarrow> nat \<Rightarrow> jsval \<Rightarrow> heap" where
  "push h r v = h[r := h ! r @ [v]]"

text \<open>
  The object literal of \<open>note\<close>, \<open>image\<close> and \<open>video\<close> (first property \<open>content\<close> or \<open>url\<close>) with
  the statements up to the call of \<open>postActivity\<close>: the new store and the object as it is
  serialised, its \<open>to\<close> holding the contents of the copy.
\<close>

definition addressed_object ::
  "activities \<Rightarrow> heap \<Rightarrow> string \<Rightarrow> jsval \<Rightarrow> string \<Rightarrow> nat \<Rightarrow> jsval \<Rightarrow> jsval \<Rightarrow> error + (jsval \<times> heap)" where
  "addressed_object a h field v typ to audience summary =
     bindE (getp (actor a) ''id'') (\<lambda>aid.
     bindE (slice h to) (\<lambda>(r, h1).
       let h2 = (if audience = Str ''friends'' \<or> audience = Str ''public''
                 then push h1 r (getq (actor a) ''followers'') else h1);
           h3 = (if audience = Str ''public'' then push h2 r (Str PublicAddress) else h2)
       in Inr (Obj ([(field, v), (''type'', Str typ), (''attributedTo'', aid), (''context'', place a),
                     (''to'', Arr (h3 ! r))]
                    @ (if truthy summary then [(''summary'', summary)] else [])),
               h3)))"

definition post_addressed ::
  "network \<Rightarrow> activities \<Rightarrow> error + (jsval \<times> heap) \<Rightarrow> heap \<Rightarrow> event list
   \<Rightarrow> (error + jsval) \<times> heap \<times> event list" where
  "post_addressed net a built h log =
     (case built of
        Inl e \<Rightarrow> (Inl e, h, log)
      | Inr (obj, h') \<Rightarrow> (case postActivity net a obj log of (res, log') \<Rightarrow> (res, h', log')))"

text \<open>The method \<open>image\<close> (the name is taken by the image of a set).\<close>

definition image_post ::
  "network \<Rightarrow> activities \<Rightarrow> heap \<Rightarrow> jsval \<Rightarrow> nat \<Rightarrow> jsval \<Rightarrow> jsval \<Rightarrow> event list
   \<Rightarrow> (error + jsval) \<times> heap \<times> event list" where
  "image_post net a h url_arg to audience summary log =
     post_addressed net a (addressed_object a h ''url'' url_arg ''Image'' to audience summary) h log"

text \<open>The method \<open>note\<close> (the name is taken by the proof language).\<close>

definition note_post ::
  "network \<Rightarrow> activities \<Rightarrow> heap \<Rightarrow> jsval \<Rightarrow> nat \<Rightarrow> jsval \<Rightarrow> jsval \<Rightarrow> event list
   \<Rightarrow> (error + jsval) \<times> heap \<times> event list" where
  "note_post net a h content to audience summary log =
     post_addressed net a (addressed_object a h ''content'' content ''Note'' to audience summary) h log"

definition video ::
  "network \<Rightarrow> activities \<Rightarrow> heap \<Rightarrow> jsval \<Rightarrow> nat \<Rightarrow> jsval \<Rightarrow> jsval \<Rightarrow> event list
   \<Rightarrow> (error + jsval) \<times> heap \<times> event list" where
  "video net a h url_arg to audience summary log =
     post_addressed net a (addressed_object a h ''url'' url_arg ''Video'' to audience summary) h log"

text \<open>\<open>model\<close> has no summary and uploads through \<open>postMedia\<close>.\<close>

definition model ::
  "network \<Rightarrow> activities \<Rightarrow> heap \<Rightarrow> jsval \<Rightarrow> jsval \<Rightarrow> jsval \<Rightarrow> nat \<Rightarrow> jsval \<Rightarrow> event list
   \<Rightarrow> (error + jsval) \<times> heap \<times> event list" where
  "model net a h name glb icon to audience log =
     (case addressed_object a h ''name'' name ''Model'' to audience Undefined of
        Inl e \<Rightarrow> (Inl e, h, log)
      | Inr (obj, h') \<Rightarrow> (case postMedia net a obj glb icon log of (res, log') \<Rightarrow> (res, h', log')))"

section \<open>The high-level client: \<open>ImmersClient\<close>\<close>

subsection \<open>Profiles\<close>

record profile =
  p_id :: jsval
  p_handle :: string
  p_homeImmer :: string
  p_displayName :: jsval
  p_username :: jsval
  p_avatarImage :: jsval
  p_avatarModel :: jsval
  p_url :: jsval
  p_collections :: jsval

text \<open>The result of \<open>FriendStatusFromActivity\<close>; \<open>source_activity\<close> is its \<open>_activity\<close>.\<close>

record friendstatus =
  fs_profile :: profile
  isOnline :: bool
  locationName :: jsval
  locationURL :: jsval
  status :: string
  statusString :: string
  unsafeStatusHTML :: string
  statusHTML :: string
  source_activity :: jsval

subsection \<open>What the platform and the missing modules provide\<close>

text \<open>
  The derivations call into the browser and into modules that are not part of the modelled
  sources. They are parameters of the model:
  \<^item> \<open>url_host v\<close> is \<open>new URL(v).host\<close>, \<open>None\<close> when the constructor throws its TypeError;
  \<^item> \<open>sanitize_str\<close> is \<open>DOMPurify.sanitize\<close> on a string;
  \<^item> \<open>rel_gt\<close> is the comparison \<open>x > y\<close> of two primitive values that are not both
    strings (it then goes through numeric conversion);
  \<^item> \<open>origin_part s\<close> is \<open>getURLPart(s, 'origin')\<close> of \<open>utils.js\<close>;
  \<^item> \<open>scope_postLocation\<close> is the constant \<open>SCOPES.postLocation\<close> of \<open>authUtils.js\<close>;
  \<^item> \<open>engine_sort\<close> is what the engine's \<open>Array.prototype.sort\<close> does with a compare
    function that is not consistent on the array, where the language leaves the order to
    the implementation.
\<close>

record platform =
  url_host :: "jsval \<Rightarrow> string option"
  sanitize_str :: "string \<Rightarrow> string"
  rel_gt :: "jsval \<Rightarrow> jsval \<Rightarrow> bool"
  origin_part :: "string \<Rightarrow> string"
  scope_postLocation :: string
  engine_sort :: "(friendstatus \<Rightarrow> friendstatus \<Rightarrow> error + int) \<Rightarrow> friendstatus list
                  \<Rightarrow> error + friendstatus list"

text \<open>
  \<open>DOMPurify.sanitize(dirty)\<close>: a falsy argument is replaced by an empty comment; any other
  argument that is not a string is converted with its \<open>toString\<close> method, and the call
  throws a TypeError when it has no callable one.
\<close>

definition sanitize :: "platform \<Rightarrow> jsval \<Rightarrow> error + string" where
  "sanitize env dirty =
     (if \<not> truthy dirty then Inr (sanitize_str env ''<!-->'')
      else bindE (to_string dirty) (\<lambda>d. Inr (sanitize_str env d)))"

text \<open>\<open>prop?.url?.href ?? prop?.url ?? prop\<close>\<close>

definition URLFromProperty :: "jsval \<Rightarrow> jsval" where
  "URLFromProperty prop =
     js_nullish (getq (getq prop ''url'') ''href'') (js_nullish (getq prop ''url'') prop)"

text \<open>
  \<open>ProfileFromActor\<close>: destructuring \<open>undefined\<close> or \<open>null\<close> throws; on any other value the
  properties are read (absent ones are \<open>undefined\<close>); then \<open>new URL(id)\<close> may throw, and so
  may the conversion of the user name in the handle.
\<close>

definition ProfileFromActor :: "platform \<Rightarrow> jsval \<Rightarrow> error + profile" where
  "ProfileFromActor env act =
     (if act = Undefined \<or> act = Null then Inl TypeError
      else
        (case url_host env (getq act ''id'') of
           None \<Rightarrow> Inl TypeError
         | Some host \<Rightarrow>
             bindE (to_string (getq act ''preferredUsername'')) (\<lambda>u.
               Inr \<lparr>p_id = getq act ''id'',
                    p_handle = u @ ''['' @ host @ '']'',
                    p_homeImmer = host,
                    p_displayName = getq act ''name'',
                    p_username = getq act ''preferredUsername'',
                    p_avatarImage = URLFromProperty (getq act ''icon''),
                    p_avatarModel = URLFromProperty (getq act ''avatar''),
                    p_url = js_nullish (getq act ''url'') (getq act ''id''),
                    p_collections = getq act ''streams''\<rparr>)))"

subsection \<open>Relationship status\<close>

text \<open>
  \<open>toLowerCase\<close> on the letters A to Z. The labels of the \<open>switch\<close> are ASCII words, and no
  character outside ASCII lower-cases to a letter occurring in them, so other characters
  can stay as they are.
\<close>

definition lower_char :: "char \<Rightarrow> char" where
  "lower_char c =
     (case map_of (zip ''ABCDEFGHIJKLMNOPQRSTUVWXYZ'' ''abcdefghijklmnopqrstuvwxyz'') c of
        None \<Rightarrow> c | Some d \<Rightarrow> d)"

definition toLowerCase :: "string \<Rightarrow> string" where
  "toLowerCase s = map lower_char s"

text \<open>
  The \<open>switch\<close> of \<open>FriendStatusFromActivity\<close>: status, status string, unsanitised HTML and
  the actor the profile is taken from. \<open>activity.type.toLowerCase()\<close> throws unless the type
  is a string; the \<open>arrive\<close> case converts the location name and URL to strings; in the
  \<open>follow\<close> case \<open>actor.id\<close> throws when there is no actor.
\<close>

definition status_switch ::
  "jsval \<Rightarrow> jsval \<Rightarrow> jsval \<Rightarrow> error + (string \<times> string \<times> string \<times> jsval)" where
  "status_switch activity name loc =
     (case getq activity ''type'' of
        Str t \<Rightarrow>
          (if toLowerCase t = ''arrive'' then
             bindE (to_string name) (\<lambda>n.
             bindE (to_string loc) (\<lambda>u.
               Inr (''friend-online'',
                    ''Online at '' @ n @ '' ('' @ u @ '')'',
                    ''<span>Online at <a href=\"'' @ u @ ''\">'' @ n @ ''</a></span>'',
                    getq activity ''actor'')))
           else if toLowerCase t = ''leave'' \<or> toLowerCase t = ''accept'' then
             Inr (''friend-offline'', ''Offline'', ''<span>Offline</span>'', getq activity ''actor'')
           else if toLowerCase t = ''follow'' then
             bindE (getp (getq activity ''actor'') ''id'') (\<lambda>aid.
               if truthy aid then
                 Inr (''request-received'', ''Sent you a friend request'',
                      ''<span>Sent you a friend request</span>'', getq activity ''actor'')
               else if truthy (getq (getq activity ''object'') ''id'') then
                 Inr (''request-sent'', ''You sent a friend request'',
                      ''<span>You sent a friend request</span>'', getq activity ''object'')
               else Inr (''none'', [], ''<span></span>'', getq activity ''actor''))
           else Inr (''none'', [], ''<span></span>'', getq activity ''actor''))
      | _ \<Rightarrow> Inl TypeError)"

definition FriendStatusFromActivity :: "platform \<Rightarrow> jsval \<Rightarrow> error + friendstatus" where
  "FriendStatusFromActivity env activity =
     bindE (getp activity ''target'') (\<lambda>target.
     bindE (status_switch activity (getq target ''name'') (getq target ''url'')) (\<lambda>(st, str, html, act).
     bindE (ProfileFromActor env act) (\<lambda>p.
     bindE (sanitize env (Str html)) (\<lambda>safe.
       Inr \<lparr>fs_profile = p,
            isOnline = (st = ''friend-online''),
            locationName = getq target ''name'',
            locationURL = getq target ''url'',
            status = st,
            statusString = str,
            unsafeStatusHTML = html,
            statusHTML = safe,
            source_activity = activity\<rparr>))))"

subsection \<open>Messages\<close>

text \<open>
  \<open>new Date(v)\<close> and \<open>new Date()\<close>. \<open>new Date(v)\<close> converts an array or an object to a
  primitive first, which throws where its conversion to a string throws.
\<close>

datatype jsdate = DateOf jsval | DateNow

text \<open>\<open>activity.published ? new Date(activity.published) : new Date()\<close>\<close>

definition timestamp_of :: "jsval \<Rightarrow> error + jsdate" where
  "timestamp_of published =
     (if truthy published then bindE (to_string published) (\<lambda>s. Inr (DateOf published))
      else Inr DateNow)"

record message =
  msg_id :: jsval
  msg_type :: string
  sender :: profile
  timestamp :: jsdate
  unsafeMessageHTML :: jsval
  mediaType :: "string option"
  msg_url :: "jsval option"
  messageHTML :: string

text \<open>
  The two nested \<open>switch\<close> statements of \<open>MessageFromActivity\<close>, on \<open>activity.type\<close> and on
  \<open>activity.object?.type\<close> with strict equality: message type, media type, media url and
  unsanitised HTML. \<open>html0\<close> is the value assigned before the \<open>switch\<close>,
  \<open>activity.object?.content || activity.content\<close>, which a branch without assignment keeps.
\<close>

definition message_switch ::
  "jsval \<Rightarrow> error + (string \<times> string option \<times> jsval option \<times> jsval)" where
  "message_switch activity =
     (let obj = getq activity ''object'';
          summary = getq activity ''summary'';
          html0 = js_or (getq obj ''content'') (getq activity ''content'')
      in
        if getq activity ''type'' = Str ''Create'' then
          (if getq obj ''type'' = Str ''Note'' then Inr (''chat'', None, None, getq obj ''content'')
           else if getq obj ''type'' = Str ''Image'' then
             bindE (to_string (getq obj ''url'')) (\<lambda>u.
               Inr (''media'', Some ''image'', Some (getq obj ''url''),
                    Str (''<img class=\"immers-message-media\" src='' @ u
                         @ '' crossorigin=\"anonymous\">'')))
           else if getq obj ''type'' = Str ''Video'' then
             bindE (to_string (getq obj ''url'')) (\<lambda>u.
               Inr (''media'', Some ''video'', Some (getq obj ''url''),
                    Str (''<video class=\"immers-message-media\" controls autplay muted plasinline src=''
                         @ u @ '' crossorigin=\"anonymous\">'')))
           else Inr (''other'', None, None, html0))
        else if getq activity ''type'' = Str ''Arrive'' \<or> getq activity ''type'' = Str ''Leave'' then
          Inr (''status'', None, None, summary)
        else if getq activity ''type'' = Str ''Follow'' then
          (if \<not> truthy (getq activity ''inReplyTo'') then
             Inr (''status'', None, None, js_or summary (Str ''<span>Sent you a friend request</span>''))
           else Inr (''other'', None, None, html0))
        else if getq activity ''type'' = Str ''Accept'' then
          Inr (''status'', None, None, js_or summary (Str ''<span>Accepted your friend request</span>''))
        else Inr (''other'', None, None, summary))"

text \<open>
  \<open>MessageFromActivity\<close>: the object literal (id, sender, timestamp), the \<open>switch\<close>, the
  test of the content and the sanitizer, in this order. \<open>None\<close> is the \<open>null\<close> the function
  returns when there is no content.
\<close>

definition MessageFromActivity :: "platform \<Rightarrow> jsval \<Rightarrow> error + message option" where
  "MessageFromActivity env activity =
     bindE (getp activity ''id'') (\<lambda>mid.
     bindE (ProfileFromActor env (getq activity ''actor'')) (\<lambda>p.
     bindE (timestamp_of (getq activity ''published'')) (\<lambda>ts.
     bindE (message_switch activity) (\<lambda>(ty, media, murl, html).
       if \<not> truthy html then Inr None
       else
         bindE (sanitize env html) (\<lambda>safe.
           Inr (Some \<lparr>msg_id = mid,
                       msg_type = ty,
                       sender = p,
                       timestamp = ts,
                       unsafeMessageHTML = html,
                       mediaType = media,
                       msg_url = murl,
                       messageHTML = safe\<rparr>))))))"

text \<open>\<open>Array.prototype.map\<close> with a callback that may throw: the first throw ends the map.\<close>

fun mapE :: "('a \<Rightarrow> error + 'b) \<Rightarrow> 'a list \<Rightarrow> error + 'b list" where
  "mapE f [] = Inr []"
| "mapE f (x # xs) = bindE (f x) (\<lambda>y. bindE (mapE f xs) (\<lambda>ys. Inr (y # ys)))"

subsection \<open>The friends list\<close>

text \<open>
  \<open>x === y\<close> on values: primitives are compared by value; two arrays or objects are equal
  only when they are the same object, which two parsed activities never share.
\<close>

fun strict_eq :: "jsval \<Rightarrow> jsval \<Rightarrow> bool" where
  "strict_eq (Arr xs) y = False"
| "strict_eq (Obj kvs) y = False"
| "strict_eq x y = (x = y)"

text \<open>
  \<open>x > y\<close> converts both operands to primitives: an array or an object becomes its string,
  which can throw. Two strings are then compared lexicographically by character code; a
  comparison with \<open>undefined\<close> is false; the remaining cases are the platform's numeric
  comparison.
\<close>

definition to_primitive :: "jsval \<Rightarrow> error + jsval" where
  "to_primitive v =
     (case v of
        Arr xs \<Rightarrow> bindE (to_string v) (\<lambda>s. Inr (Str s))
      | Obj kvs \<Rightarrow> bindE (to_string v) (\<lambda>s. Inr (Str s))
      | _ \<Rightarrow> Inr v)"

definition js_gt :: "platform \<Rightarrow> jsval \<Rightarrow> jsval \<Rightarrow> error + bool" where
  "js_gt env x y =
     bindE (to_primitive x) (\<lambda>px.
     bindE (to_primitive y) (\<lambda>py.
       Inr (case px of
              Str s \<Rightarrow> (case py of Str t \<Rightarrow> t < s | Undefined \<Rightarrow> False | _ \<Rightarrow> rel_gt env px py)
            | Undefined \<Rightarrow> False
            | _ \<Rightarrow> (if py = Undefined then False else rel_gt env px py))))"

text \<open>
  \<open>FriendsSorter\<close>. The first two tests read the statuses only; the last two read
  \<open>_activity.published\<close> of both entries.
\<close>

definition FriendsSorter :: "platform \<Rightarrow> friendstatus \<Rightarrow> friendstatus \<Rightarrow> error + int" where
  "FriendsSorter env a b =
     (if status a = ''friend-online'' \<and> status b \<noteq> ''friend-online'' then Inr (- 1)
      else if status b = ''friend-online'' \<and> status a \<noteq> ''friend-online'' then Inr 1
      else
        bindE (getp (source_activity a) ''published'') (\<lambda>pa.
        bindE (getp (source_activity b) ''published'') (\<lambda>pb.
          if strict_eq pa pb then Inr 0
          else bindE (js_gt env pa pb) (\<lambda>gt. Inr (if gt then - 1 else 1)))))"

text \<open>
  \<open>Array.prototype.sort\<close> with a compare function. The language fixes the result when the
  compare function is consistent on the elements: it always returns, \<open>a = a\<close>, equality is
  symmetric, and equality, less and greater are transitive. The sort is then stable,
  so the result is the one a stable insertion sort computes: each element goes in front
  of the first element it does not compare greater than. Otherwise the order is left to
  the implementation.
\<close>

definition cf_eq :: "('a \<Rightarrow> 'a \<Rightarrow> error + int) \<Rightarrow> 'a \<Rightarrow> 'a \<Rightarrow> bool" where
  "cf_eq cmp a b = (case cmp a b of Inl e \<Rightarrow> False | Inr c \<Rightarrow> c = 0)"

definition cf_lt :: "('a \<Rightarrow> 'a \<Rightarrow> error + int) \<Rightarrow> 'a \<Rightarrow> 'a \<Rightarrow> bool" where
  "cf_lt cmp a b = (case cmp a b of Inl e \<Rightarrow> False | Inr c \<Rightarrow> c < 0)"

definition cf_gt :: "('a \<Rightarrow> 'a \<Rightarrow> error + int) \<Rightarrow> 'a \<Rightarrow> 'a \<Rightarrow> bool" where
  "cf_gt cmp a b = (case cmp a b of Inl e \<Rightarrow> False | Inr c \<Rightarrow> 0 < c)"

definition consistent_comparefn :: "('a \<Rightarrow> 'a \<Rightarrow> error + int) \<Rightarrow> 'a list \<Rightarrow> bool" where
  "consistent_comparefn cmp xs =
     ((\<forall>a\<in>set xs. \<forall>b\<in>set xs. cf_eq cmp a b \<or> cf_lt cmp a b \<or> cf_gt cmp a b)
      \<and> (\<forall>a\<in>set xs. cf_eq cmp a a)
      \<and> (\<forall>a\<in>set xs. \<forall>b\<in>set xs. cf_eq cmp a b \<longrightarrow> cf_eq cmp b a)
      \<and> (\<forall>a\<in>set xs. \<forall>b\<in>set xs. \<forall>c\<in>set xs. cf_eq cmp a b \<and> cf_eq cmp b c \<longrightarrow> cf_eq cmp a c)
      \<and> (\<forall>a\<in>set xs. \<forall>b\<in>set xs. \<forall>c\<in>set xs. cf_lt cmp a b \<and> cf_lt cmp b c \<longrightarrow> cf_lt cmp a c)
      \<and> (\<forall>a\<in>set xs. \<forall>b\<in>set xs. \<forall>c\<in>set xs. cf_gt cmp a b \<and> cf_gt cmp b c \<longrightarrow> cf_gt cmp a c))"

fun insert_by :: "('a \<Rightarrow> 'a \<Rightarrow> error + int) \<Rightarrow> 'a \<Rightarrow> 'a list \<Rightarrow> error + 'a list" where
  "insert_by cmp x [] = Inr [x]"
| "insert_by cmp x (y # ys) =
     bindE (cmp x y) (\<lambda>c.
       if c \<le> 0 then Inr (x # y # ys)
       else bindE (insert_by cmp x ys) (\<lambda>zs. Inr (y # zs)))"

fun sort_by :: "('a \<Rightarrow> 'a \<Rightarrow> error + int) \<Rightarrow> 'a list \<Rightarrow> error + 'a list" where
  "sort_by cmp [] = Inr []"
| "sort_by cmp (x # xs) = bindE (sort_by cmp xs) (insert_by cmp x)"

definition array_sort ::
  "platform \<Rightarrow> (friendstatus \<Rightarrow> friendstatus \<Rightarrow> error + int) \<Rightarrow> friendstatus list
   \<Rightarrow> error + friendstatus list" where
  "array_sort env cmp xs =
     (if consistent_comparefn cmp xs then sort_by cmp xs else engine_sort env cmp xs)"

text \<open>\<open>Array.prototype.filter\<close> with a predicate that may throw.\<close>

fun filterE :: "('a \<Rightarrow> error + bool) \<Rightarrow> 'a list \<Rightarrow> error + 'a list" where
  "filterE f [] = Inr []"
| "filterE f (x # xs) =
     bindE (f x) (\<lambda>keep. bindE (filterE f xs) (\<lambda>ys. Inr (if keep then x # ys else ys)))"

text \<open>\<open>activity => activity.type !== 'Reject'\<close>\<close>

definition not_reject :: "jsval \<Rightarrow> error + bool" where
  "not_reject activity = bindE (getp activity ''type'') (\<lambda>t. Inr (t \<noteq> Str ''Reject''))"

text \<open>\<open>.map\<close> and \<open>.filter\<close> exist on arrays only.\<close>

definition as_array :: "jsval \<Rightarrow> error + jsval list" where
  "as_array v = (case v of Arr xs \<Rightarrow> Inr xs | _ \<Rightarrow> Inl TypeError)"

text \<open>The chain \<open>.filter(...).map(...).sort(...)\<close> that \<open>friendsList\<close> returns.\<close>

definition friends_view :: "platform \<Rightarrow> jsval list \<Rightarrow> error + friendstatus list" where
  "friends_view env items =
     bindE (filterE not_reject items) (\<lambda>kept.
     bindE (mapE (FriendStatusFromActivity env) kept) (\<lambda>fs.
       array_sort env (FriendsSorter env) fs))"

subsection \<open>Client state\<close>

text \<open>
  The real-time socket as far as the client drives it: whether it is connected, the
  armed leave-on-disconnect (actor and place), and whether \<open>enterBound\<close> is registered for
  the connect event.
\<close>

record streaming =
  sconnected :: bool
  leaveOnDisconnect :: "(jsval \<times> jsval) option"
  enterListener :: bool

text \<open>
  \<open>credential\<close> holds the \<open>authorizedScopes\<close> array of the stored credential, \<open>None\<close> when no
  credential is stored. \<open>activities_of\<close> and \<open>streaming_of\<close> are \<open>undefined\<close> (\<open>None\<close>) until
  login.
\<close>

record client =
  connected :: bool
  cplace :: jsval
  clocalImmer :: "string option"
  credential :: "string list option"
  activities_of :: "activities option"
  streaming_of :: "streaming option"
  store_friends :: "friendstatus list option"

text \<open>
  \<open>friendsList\<close>: the first \<open>map\<close> over all items fills the store; the returned list is
  built from the items again.
\<close>

definition friendsList ::
  "platform \<Rightarrow> network \<Rightarrow> client \<Rightarrow> event list \<Rightarrow> (error + friendstatus list) \<times> client \<times> event list" where
  "friendsList env net c log =
     (case activities_of c of
        None \<Rightarrow> (Inl TypeError, c, log)
      | Some acts \<Rightarrow>
          (case friends net acts log of
             (Inl e, log') \<Rightarrow> (Inl e, c, log')
           | (Inr col, log') \<Rightarrow>
               (case bindE (getp col ''orderedItems'') as_array of
                  Inl e \<Rightarrow> (Inl e, c, log')
                | Inr items \<Rightarrow>
                    (case mapE (FriendStatusFromActivity env) items of
                       Inl e \<Rightarrow> (Inl e, c, log')
                     | Inr stored \<Rightarrow>
                         (friends_view env items, c\<lparr>store_friends := Some stored\<rparr>, log')))))"

subsection \<open>Presence: \<open>enter\<close>, \<open>move\<close>, \<open>exit\<close>\<close>

text \<open>
  A destination description is absent, a URL string or a \<open>Destination\<close>/\<open>APPlace\<close> object,
  as the parameter is documented.
\<close>

datatype destination = NoDest | DestUrl string | DestObj "(string \<times> jsval) list"

fun dest_truthy :: "destination \<Rightarrow> bool" where
  "dest_truthy NoDest = False"
| "dest_truthy (DestUrl u) = (u \<noteq> [])"
| "dest_truthy (DestObj kvs) = True"

text \<open>
  \<open>Object.assign(target, source)\<close> writes the source's properties in order. It throws on an
  \<open>undefined\<close> or \<open>null\<close> target. On an array or a primitive target the written properties
  are not JSON content, and the value stays as it is.
\<close>

definition object_assign :: "jsval \<Rightarrow> (string \<times> jsval) list \<Rightarrow> error + jsval" where
  "object_assign target src =
     (case target of
        Obj kvs \<Rightarrow> Inr (Obj (foldl (\<lambda>acc (k, v). set_prop acc k v) kvs src))
      | Undefined \<Rightarrow> Inl TypeError
      | Null \<Rightarrow> Inl TypeError
      | _ \<Rightarrow> Inr target)"

definition defaultPlace :: jsval where
  "defaultPlace = Obj [(''type'', Str ''Place''), (''audience'', Str PublicAddress)]"

text \<open>\<open>this.place = p; if (this.activities) this.activities.place = this.place\<close>\<close>

definition set_place :: "client \<Rightarrow> jsval \<Rightarrow> client" where
  "set_place c p =
     c\<lparr>cplace := p, activities_of := map_option (\<lambda>a. a\<lparr>place := p\<rparr>) (activities_of c)\<rparr>"

text \<open>
  \<open>fetch(...).then(res => res.json())\<close>: no test of \<open>res.ok\<close>; a rejected fetch or a body
  that is not JSON rejects.
\<close>

definition fetch_json :: "network \<Rightarrow> jsval \<Rightarrow> event list \<Rightarrow> (error + jsval) \<times> event list" where
  "fetch_json net u log =
     (case window_fetch net
        \<lparr>url = u, meth = ''GET'', headers = [(''Accept'', JSONLDMime)], body = NoBody\<rparr> log of
        (Inl e, log') \<Rightarrow> (Inl e, log')
      | (Inr r, log') \<Rightarrow> (json r, log'))"

text \<open>
  \<open>#setPlaceFromDestination\<close>. A string is fetched as the place. Otherwise the base place
  is the local immer's place document, with the default place on any failure
  (\<open>.catch(() => defaultPlace)\<close>), or the default place when there is no local immer, and
  the description is assigned over it.
\<close>

definition setPlaceFromDestination ::
  "platform \<Rightarrow> network \<Rightarrow> client \<Rightarrow> destination \<Rightarrow> event list \<Rightarrow> (error + unit) \<times> client \<times> event list" where
  "setPlaceFromDestination env net c dest log =
     (case dest of
        DestUrl u \<Rightarrow>
          (case fetch_json net (Str u) log of
             (Inl e, log') \<Rightarrow> (Inl e, c, log')
           | (Inr p, log') \<Rightarrow> (Inr (), set_place c p, log'))
      | _ \<Rightarrow>
          (case (case clocalImmer c of
                   None \<Rightarrow> (defaultPlace, log)
                 | Some l \<Rightarrow>
                     (if l = [] then (defaultPlace, log)
                      else (case fetch_json net (Str (origin_part env l @ ''/o/immer'')) log of
                              (Inl e, log') \<Rightarrow> (defaultPlace, log')
                            | (Inr p, log') \<Rightarrow> (p, log')))) of
             (base, log') \<Rightarrow>
               (case object_assign base (case dest of DestObj kvs \<Rightarrow> kvs | _ \<Rightarrow> []) of
                  Inl e \<Rightarrow> (Inl e, c, log')
                | Inr p \<Rightarrow> (Inr (), set_place c p, log'))))"

definition not_authorized_info :: event where
  "not_authorized_info = ConsoleInfo ''Not sharing location because not authorized''"

text \<open>
  The part of \<open>enter\<close> after the optional update of the place: the login test, the scope
  test, \<open>arrive\<close> and arming leave-on-disconnect when the socket is connected, and the
  registration of \<open>enterBound\<close>.
\<close>

definition enter_online ::
  "platform \<Rightarrow> network \<Rightarrow> client \<Rightarrow> event list \<Rightarrow> (error + unit) \<times> client \<times> event list" where
  "enter_online env net c log =
     (if \<not> connected c then (Inl (Error ''Immers login required to udpate location''), c, log)
      else
        (case credential c of
           None \<Rightarrow> (Inl TypeError, c, log)
         | Some scopes \<Rightarrow>
             (if scope_postLocation env \<notin> set scopes then (Inr (), c, log @ [not_authorized_info])
              else
                (case activities_of c of
                   None \<Rightarrow> (Inl TypeError, c, log)
                 | Some acts \<Rightarrow>
                     (case streaming_of c of
                        None \<Rightarrow> (Inl TypeError, c, log)
                      | Some s \<Rightarrow>
                          (if sconnected s then
                             (case arrive net acts Undefined log of
                                (Inl e, log') \<Rightarrow> (Inl e, c, log')
                              | (Inr res, log') \<Rightarrow>
                                  (Inr (),
                                   c\<lparr>streaming_of :=
                                       Some (s\<lparr>leaveOnDisconnect := Some (actor acts, cplace c),
                                               enterListener := True\<rparr>)\<rparr>,
                                   log'))
                           else
                             (Inr (), c\<lparr>streaming_of := Some (s\<lparr>enterListener := True\<rparr>)\<rparr>, log)))))))"

definition enter ::
  "platform \<Rightarrow> network \<Rightarrow> client \<Rightarrow> destination \<Rightarrow> event list \<Rightarrow> (error + unit) \<times> client \<times> event list" where
  "enter env net c dest log =
     (if dest_truthy dest then
        (case setPlaceFromDestination env net c dest log of
           (Inl e, c', log') \<Rightarrow> (Inl e, c', log')
         | (Inr u, c', log') \<Rightarrow> enter_online env net c' log')
      else enter_online env net c log)"

definition exit ::
  "platform \<Rightarrow> network \<Rightarrow> client \<Rightarrow> event list \<Rightarrow> (error + unit) \<times> client \<times> event list" where
  "exit env net c log =
     (if \<not> connected c then (Inl (Error ''Immers login required to update location''), c, log)
      else
        (case credential c of
           None \<Rightarrow> (Inl TypeError, c, log)
         | Some scopes \<Rightarrow>
             (if scope_postLocation env \<notin> set scopes then (Inr (), c, log @ [not_authorized_info])
              else
                (case activities_of c of
                   None \<Rightarrow> (Inl TypeError, c, log)
                 | Some acts \<Rightarrow>
                     (case leave net acts Undefined log of
                        (Inl e, log') \<Rightarrow> (Inl e, c, log')
                      | (Inr res, log') \<Rightarrow>
                          (case streaming_of c of
                             None \<Rightarrow> (Inl TypeError, c, log')
                           | Some s \<Rightarrow>
                               (Inr (),
                                c\<lparr>streaming_of :=
                                    Some (s\<lparr>leaveOnDisconnect := None, enterListener := False\<rparr>)\<rparr>,
                                log')))))))"

definition move ::
  "platform \<Rightarrow> network \<Rightarrow> client \<Rightarrow> destination \<Rightarrow> event list \<Rightarrow> (error + unit) \<times> client \<times> event list" where
  "move env net c dest log =
     (if \<not> connected c then (Inl (Error ''Immers login required to update location''), c, log)
      else
        (case credential c of
           None \<Rightarrow> (Inl TypeError, c, log)
         | Some scopes \<Rightarrow>
             (if scope_postLocation env \<notin> set scopes then (Inr (), c, log @ [not_authorized_info])
              else
                (case exit env net c log of
                   (Inl e, c', log') \<Rightarrow> (Inl e, c', log')
                 | (Inr u, c', log') \<Rightarrow> enter env net c' dest log'))))"

section \<open>Notions of the specification\<close>

text \<open>
  The origin of an identifier, as the specification speaks of it: the scheme, \<open>://\<close> and
  the authority, which ends at the first \<open>/\<close>, \<open>?\<close> or \<open>#\<close>. \<open>None\<close> when the identifier has
  no \<open>://\<close>.
\<close>

fun split_scheme :: "string \<Rightarrow> string \<Rightarrow> (string \<times> string) option" where
  "split_scheme acc [] = None"
| "split_scheme acc (c # cs) =
     (if prefix ''://'' (c # cs) then Some (rev acc, drop 3 (c # cs))
      else split_scheme (c # acc) cs)"

definition iri_origin :: "string \<Rightarrow> string option" where
  "iri_origin s =
     (case split_scheme [] s of
        None \<Rightarrow> None
      | Some (scheme, rest) \<Rightarrow> Some (scheme @ ''://'' @ takeWhile (\<lambda>c. c \<notin> set ''/?#'') rest))"

text \<open>
  The trust check as the specification words it: the origin of the identifier is the home
  server or the local origin.
\<close>

definition origin_trusted :: "activities \<Rightarrow> string \<Rightarrow> bool" where
  "origin_trusted a iri =
     (iri_origin iri = Some (homeImmer a)
      \<or> (case localImmer a of None \<Rightarrow> False | Some l \<Rightarrow> iri_origin iri = Some l))"

text \<open>The activity objects a call added to those already sent.\<close>

definition new_posts :: "event list \<Rightarrow> event list \<Rightarrow> jsval list" where
  "new_posts log log' = drop (length (posted log)) (posted log')"

text \<open>
  A call sends at most one activity object, and the object satisfies \<open>P\<close>: the objects sent
  before are still the first ones, and what was added is nothing or one object with \<open>P\<close>.
\<close>

definition posts_only :: "(jsval \<Rightarrow> bool) \<Rightarrow> event list \<Rightarrow> event list \<Rightarrow> bool" where
  "posts_only P log log' =
     (take (length (posted log)) (posted log') = posted log
      \<and> length (new_posts log log') \<le> 1 \<and> list_all P (new_posts log log'))"

text \<open>A value that converts to a string.\<close>

definition prints :: "jsval \<Rightarrow> bool" where
  "prints v = (case to_string v of Inl e \<Rightarrow> False | Inr s \<Rightarrow> True)"

text \<open>
  An actor a profile can be made of: a value other than \<open>undefined\<close> and \<open>null\<close> whose \<open>id\<close>
  the URL parser accepts and whose user name converts to a string.
\<close>

definition actor_ok :: "platform \<Rightarrow> jsval \<Rightarrow> bool" where
  "actor_ok env act =
     (act \<noteq> Undefined \<and> act \<noteq> Null \<and> url_host env (getq act ''id'') \<noteq> None
      \<and> prints (getq act ''preferredUsername''))"

text \<open>
  The subject of a relationship status: the object of a \<open>Follow\<close> whose actor has no \<open>id\<close>
  and whose object has one, the actor of every other activity.
\<close>

definition subject :: "jsval \<Rightarrow> jsval" where
  "subject activity =
     (case getq activity ''type'' of
        Str t \<Rightarrow>
          (if toLowerCase t = ''follow'' \<and> \<not> truthy (getq (getq activity ''actor'') ''id'')
              \<and> truthy (getq (getq activity ''object'') ''id'')
           then getq activity ''object'' else getq activity ''actor'')
      | _ \<Rightarrow> getq activity ''actor'')"

text \<open>
  The activities a relationship status can be derived from: the type is a string, a
  \<open>Follow\<close> has an actor, the location name and URL of an \<open>Arrive\<close> convert to strings, and
  a profile can be made of the subject.
\<close>

definition status_ok :: "platform \<Rightarrow> jsval \<Rightarrow> bool" where
  "status_ok env activity =
     (case getq activity ''type'' of
        Str t \<Rightarrow>
          (toLowerCase t = ''arrive'' \<longrightarrow>
             prints (getq (getq activity ''target'') ''name'')
             \<and> prints (getq (getq activity ''target'') ''url''))
          \<and> (toLowerCase t = ''follow'' \<longrightarrow>
                getq activity ''actor'' \<noteq> Undefined \<and> getq activity ''actor'' \<noteq> Null)
          \<and> actor_ok env (subject activity)
      | _ \<Rightarrow> False)"

text \<open>
  Activities a message can be derived from: a profile can be made of the actor, and the
  values the derivation may print (the timestamp, the summary, the content of the
  activity and of its object, the URL of its object) convert to strings.
\<close>

definition message_ok :: "platform \<Rightarrow> jsval \<Rightarrow> bool" where
  "message_ok env activity =
     (actor_ok env (getq activity ''actor'')
      \<and> prints (getq activity ''published'')
      \<and> prints (getq activity ''summary'')
      \<and> prints (getq activity ''content'')
      \<and> prints (getq (getq activity ''object'') ''content'')
      \<and> prints (getq (getq activity ''object'') ''url''))"

section \<open>A concrete session\<close>

text \<open>
  A platform, a user and servers to run the model on. The URL parser of this platform
  accepts exactly the strings of the form \<open>scheme://host...\<close> with a non-empty scheme; its
  sanitizer finds nothing to remove; its sort leaves an array alone when the compare
  function is not consistent.
\<close>

definition simple_host :: "jsval \<Rightarrow> string option" where
  "simple_host v =
     (case v of
        Str s \<Rightarrow>
          (case split_scheme [] s of
             None \<Rightarrow> None
           | Some (scheme, rest) \<Rightarrow>
               (if scheme = [] then None else Some (takeWhile (\<lambda>c. c \<notin> set ''/?#'') rest)))
      | _ \<Rightarrow> None)"

definition demo_env :: platform where
  "demo_env =
     \<lparr>url_host = simple_host, sanitize_str = (\<lambda>s. s), rel_gt = (\<lambda>x y. False),
      origin_part = (\<lambda>s. ''https://'' @ s), scope_postLocation = ''postLocation'',
      engine_sort = (\<lambda>cmp xs. Inr xs)\<rparr>"

definition alice :: jsval where
  "alice =
     Obj [(''id'', Str ''https://home.example/u/alice''),
          (''type'', Str ''Person''),
          (''preferredUsername'', Str ''alice''),
          (''inbox'', Str ''https://home.example/u/alice/inbox''),
          (''outbox'', Str ''https://home.example/u/alice/outbox''),
          (''followers'', Str ''https://home.example/u/alice/followers'')]"

definition here :: jsval where
  "here =
     Obj [(''id'', Str ''https://venue.example''), (''type'', Str ''Place''),
          (''name'', Str ''Venue''), (''url'', Str ''https://venue.example''),
          (''audience'', Str ''as:Public'')]"

definition session :: activities where
  "session =
     \<lparr>actor = alice, homeImmer = ''https://home.example'', place = here, token = Str ''t0k'',
      localImmer = None, nextInboxPage = Null, nextOutboxPage = Null\<rparr>"

text \<open>
  A session on the home server \<open>https://immers.space\<close> whose actor has its outbox on the
  host \<open>immers.space.evil.example\<close>.
\<close>

definition lookalike :: activities where
  "lookalike =
     \<lparr>actor = Obj [(''id'', Str ''https://immers.space.evil.example/u/alice''),
                   (''outbox'', Str ''https://immers.space.evil.example/u/alice/outbox'')],
      homeImmer = ''https://immers.space'', place = here, token = Str ''t0k'',
      localImmer = None, nextInboxPage = Null, nextOutboxPage = Null\<rparr>"

text \<open>A response with a JSON body, and a \<open>201 Created\<close> giving a location.\<close>

definition json_response :: "jsval \<Rightarrow> response" where
  "json_response v =
     \<lparr>ok = True, http_status = ''200'', body_printed = ''[object ReadableStream]'',
      json = Inr v, text_of = Inr [], location = Null\<rparr>"

definition created_response :: "string \<Rightarrow> response" where
  "created_response loc =
     \<lparr>ok = True, http_status = ''201'', body_printed = ''null'',
      json = Inl (Error ''Unexpected end of JSON input''), text_of = Inr [], location = Str loc\<rparr>"

text \<open>A server that accepts every post.\<close>

definition accepting_net :: network where
  "accepting_net log req = Inr (created_response ''https://home.example/s/new'')"

text \<open>A network on which every fetch is rejected.\<close>

definition failing_net :: network where
  "failing_net log req = Inl TypeError"

text \<open>A collection root without inline items, and its only page.\<close>

definition box_root :: jsval where
  "box_root = Obj [(''type'', Str ''OrderedCollection''), (''first'', Str ''https://home.example/page/1'')]"

definition box_page :: jsval where
  "box_page =
     Obj [(''type'', Str ''OrderedCollectionPage''),
          (''orderedItems'', Arr [Obj [(''id'', Str ''https://home.example/s/1''), (''type'', Str ''Create'')]])]"

text \<open>A server with that collection as the inbox and the outbox of the user.\<close>

definition paged_net :: network where
  "paged_net log req =
     (if url req = Str ''https://home.example/u/alice/inbox''
         \<or> url req = Str ''https://home.example/u/alice/outbox''
      then Inr (json_response box_root)
      else if url req = Str ''https://home.example/page/1'' then Inr (json_response box_page)
      else Inl TypeError)"

text \<open>
  A collection root with an empty inline array and a first page, and a server with that
  collection as the inbox and the outbox of the user.
\<close>

definition empty_root :: jsval where
  "empty_root =
     Obj [(''type'', Str ''OrderedCollection''), (''orderedItems'', Arr []),
          (''first'', Str ''https://home.example/page/1'')]"

definition empty_root_net :: network where
  "empty_root_net log req =
     (if url req = Str ''https://home.example/u/alice/inbox''
         \<or> url req = Str ''https://home.example/u/alice/outbox''
      then Inr (json_response empty_root)
      else if url req = Str ''https://home.example/page/1'' then Inr (json_response box_page)
      else Inl TypeError)"

text \<open>The direct read of a trusted identifier by the session, as an event.\<close>

definition get_request :: "string \<Rightarrow> event" where
  "get_request u =
     Fetch \<lparr>url = Str u, meth = ''GET'',
            headers = [(''Accept'', ''application/activity+json''), (''Authorization'', ''Bearer t0k'')],
            body = NoBody\<rparr>"

text \<open>Another user, on another server, and two activities about them.\<close>

definition bob :: jsval where
  "bob = Obj [(''id'', Str ''https://away.example/u/bob''), (''type'', Str ''Person''),
              (''preferredUsername'', Str ''bob''), (''name'', Str ''Bob'')]"


definition request_to_bob :: jsval where
  "request_to_bob =
     Obj [(''id'', Str ''https://home.example/s/2''), (''type'', Str ''Follow''),
          (''actor'', Str ''https://home.example/u/alice''), (''object'', bob),
          (''published'', Str ''2022-05-11T11:00:00.000Z'')]"

text \<open>
  Friends of the user: Dave left half a second after Carol; his server prints
  milliseconds, hers does not. The server that holds this friends collection, and the
  logged-in client.
\<close>

definition person :: "string \<Rightarrow> jsval" where
  "person n = Obj [(''id'', Str (''https://away.example/u/'' @ n)), (''preferredUsername'', Str n)]"

definition about :: "string \<Rightarrow> string \<Rightarrow> string \<Rightarrow> jsval" where
  "about ty n t =
     Obj [(''type'', Str ty), (''actor'', person n), (''target'', here), (''published'', Str t)]"

definition friends_col :: jsval where
  "friends_col =
     Obj [(''type'', Str ''OrderedCollection''),
          (''orderedItems'',
           Arr [about ''Leave'' ''dave'' ''2022-05-11T10:00:00.500Z'',
                about ''Leave'' ''carol'' ''2022-05-11T10:00:00Z''])]"

definition friends_net :: network where
  "friends_net log req =
     (if url req = Str ''https://home.example/u/alice/friends''
      then Inr (json_response friends_col) else Inl TypeError)"

definition logged_in :: client where
  "logged_in =
     \<lparr>connected = True, cplace = here, clocalImmer = None,
      credential = Some [''viewFriends'', ''viewPublic''],
      activities_of = Some session,
      streaming_of = Some \<lparr>sconnected = True, leaveOnDisconnect = None, enterListener = False\<rparr>,
      store_friends = None\<rparr>"

text \<open>
  Activities received from Bob: an automated follow-back that carries content, a chat
  note, and a note that names no actor.
\<close>

definition follow_back :: jsval where
  "follow_back =
     Obj [(''id'', Str ''https://away.example/s/9''), (''type'', Str ''Follow''), (''actor'', bob),
          (''object'', Str ''https://home.example/u/alice''),
          (''inReplyTo'', Str ''https://home.example/s/2''), (''content'', Str ''hello'')]"

definition bob_says :: jsval where
  "bob_says =
     Obj [(''id'', Str ''https://away.example/s/3''), (''type'', Str ''Create''), (''actor'', bob),
          (''object'', Obj [(''type'', Str ''Note''), (''content'', Str ''hi'')])]"





definition anonymous_note :: jsval where
  "anonymous_note =
     Obj [(''id'', Str ''https://away.example/s/4''), (''type'', Str ''Create''),
          (''object'', Obj [(''type'', Str ''Note''), (''content'', Str ''hi'')])]"

section \<open>Basic facts\<close>

lemma getp_Inr: "getp v k = Inr w \<Longrightarrow> w = getq v k"
  by (cases v) auto

lemma getq_Str_getp: "getq v k = Str s \<Longrightarrow> getp v j = Inr (getq v j)"
  by (cases v) auto

lemma getp_Inl: "getp v k = Inl e \<Longrightarrow> e = TypeError"
  by (cases v) auto

lemma truthy_getq_getp: "truthy (getq v k) \<Longrightarrow> getp v j = Inr (getq v j)"
  by (cases v) auto

lemma bindE_Inr: "bindE m f = Inr y \<longleftrightarrow> (\<exists>x. m = Inr x \<and> f x = Inr y)"
  by (cases m) auto

lemma posted_append: "posted (xs @ ys) = posted xs @ posted ys"
  by (induction xs rule: posted.induct) (auto split: reqbody.splits)

lemma to_string_Str: "to_string (Str s) = Inr s"
  by simp

lemmas post_simps = postActivity_def bearer_def window_fetch_def trustedIRI_str_def
  JSONLDMime_def PublicAddress_def

lemmas profile_simps = ProfileFromActor_def demo_env_def simple_host_def URLFromProperty_def
  js_nullish_def js_or_def sanitize_def

lemmas status_simps = FriendStatusFromActivity_def status_switch_def toLowerCase_def lower_char_def
  profile_simps

lemmas message_simps = MessageFromActivity_def message_switch_def timestamp_of_def profile_simps

lemmas fetch_simps = getObject_def object_result_def window_fetch_def accept_headers_def bearer_def
  trustedIRI_str_def json_response_def JSONLDMime_def

section \<open>The trust check\<close>

text \<open>What the code computes: a test of string prefixes.\<close>

lemma trustedIRI_prefix:
  "trustedIRI a (Str iri) =
     Inr ((\<exists>l. localImmer a = Some l \<and> l \<noteq> [] \<and> prefix l iri) \<or> prefix (homeImmer a) iri)"
  by (cases "localImmer a") (simp_all add: trustedIRI_str_def)

text \<open>
  Claim C1 says that \<open>trustedIRI\<close> is true exactly for the identifiers whose origin is the
  home or the local origin. The code tests prefixes, so an identifier on a foreign host
  whose name merely begins with the home origin passes: with the home server
  \<open>https://immers.space\<close>, the identifier \<open>https://immers.space.evil.example/actor\<close>, of
  origin \<open>https://immers.space.evil.example\<close>, is trusted, like an identifier of the home
  server itself.
\<close>

theorem trustedIRI_foreign_origin:
  "trustedIRI (session\<lparr>homeImmer := ''https://immers.space''\<rparr>)
     (Str ''https://immers.space.evil.example/actor'') = Inr True
   \<and> iri_origin ''https://immers.space.evil.example/actor'' = Some ''https://immers.space.evil.example''
   \<and> \<not> origin_trusted (session\<lparr>homeImmer := ''https://immers.space''\<rparr>)
         ''https://immers.space.evil.example/actor''
   \<and> trustedIRI (session\<lparr>homeImmer := ''https://immers.space''\<rparr>)
         (Str ''https://immers.space/u/alice'') = Inr True
   \<and> origin_trusted (session\<lparr>homeImmer := ''https://immers.space''\<rparr>) ''https://immers.space/u/alice''"
  by (simp add: session_def trustedIRI_str_def iri_origin_def origin_trusted_def)

section \<open>The caller's addressee array\<close>

lemma addressed_object_frame:
  assumes "addressed_object a h field v typ to audience summary = Inr (obj, h')"
  shows "take (length h) h' = h"
  using assms
  by (auto simp: addressed_object_def slice_def push_def Let_def split: sum.splits if_splits
      elim!: bindE.elims)

lemma post_addressed_frame:
  assumes "to < length h"
  shows "fst (snd (post_addressed net a (addressed_object a h field v typ to audience summary) h log))
           ! to = h ! to"
proof (cases "addressed_object a h field v typ to audience summary")
  case (Inl e)
  then show ?thesis by (simp add: post_addressed_def)
next
  case (Inr p)
  obtain obj h' where p: "p = (obj, h')" by (cases p)
  from Inr p have "take (length h) h' = h" by (auto dest: addressed_object_frame)
  then have "h' ! to = h ! to" using assms by (metis nth_take)
  with Inr p show ?thesis by (simp add: post_addressed_def split: prod.splits)
qed

text \<open>
  Claim C10: after \<open>note\<close>, \<open>image\<close> or \<open>video\<close>, with any audience, the array the caller
  passed as \<open>to\<close> holds what it held before. The followers collection and the public
  address go into the copy made by \<open>to.slice()\<close>.
\<close>

theorem builders_keep_caller_array:
  assumes "to < length h"
  shows "fst (snd (note_post net a h content to audience summary log)) ! to = h ! to
       \<and> fst (snd (image_post net a h url_arg to audience summary log)) ! to = h ! to
       \<and> fst (snd (video net a h url_arg to audience summary log)) ! to = h ! to"
  using assms by (simp add: note_post_def image_post_def video_def post_addressed_frame)

text \<open>
  A public note to one addressee: the posted object is addressed to three, the caller's
  array still holds one.
\<close>

theorem builders_keep_caller_array_witness:
  "(0::nat) < length [[Str ''https://home.example/u/bob'']]
   \<and> note_post accepting_net session [[Str ''https://home.example/u/bob'']]
        (Str ''hi'') 0 (Str ''public'') Undefined []
     = (Inr (Str ''https://home.example/s/new''),
        [[Str ''https://home.example/u/bob''],
         [Str ''https://home.example/u/bob'', Str ''https://home.example/u/alice/followers'',
          Str ''as:Public'']],
        [Fetch \<lparr>url = Str ''https://home.example/u/alice/outbox'', meth = ''POST'',
                headers = [(''Content-Type'', ''application/activity+json''),
                           (''Authorization'', ''Bearer t0k'')],
                body = JsonBody (Obj [(''content'', Str ''hi''), (''type'', Str ''Note''),
                   (''attributedTo'', Str ''https://home.example/u/alice''), (''context'', here),
                   (''to'', Arr [Str ''https://home.example/u/bob'',
                                 Str ''https://home.example/u/alice/followers'',
                                 Str ''as:Public''])])\<rparr>])
   \<and> fst (snd (note_post accepting_net session [[Str ''https://home.example/u/bob'']]
                  (Str ''hi'') 0 (Str ''public'') Undefined [])) ! 0
      = [[Str ''https://home.example/u/bob'']] ! 0"
  using builders_keep_caller_array
    [of 0 "[[Str ''https://home.example/u/bob'']]" accepting_net session "Str ''hi''"
        "Str ''public''" Undefined "[]"]
  by (simp add: note_post_def post_addressed_def addressed_object_def slice_def push_def
       post_simps session_def alice_def accepting_net_def created_response_def)

section \<open>The actor of what is posted\<close>

lemma posts_only_refl: "posts_only P log log"
  by (simp add: posts_only_def new_posts_def)

lemma posts_only_one: "P b \<Longrightarrow> posts_only P log (log @ [Fetch \<lparr>url = u, meth = m, headers = hs, body = JsonBody b\<rparr>])"
  by (simp add: posts_only_def new_posts_def posted_append)

lemma posts_only_media: "P b \<Longrightarrow> posts_only P log (log @ [Fetch \<lparr>url = u, meth = m, headers = hs, body = MultipartBody f i b\<rparr>])"
  by (simp add: posts_only_def new_posts_def posted_append)

lemma postActivity_posts: "P activity \<Longrightarrow> posts_only P log (snd (postActivity net a activity log))"
  by (auto simp: postActivity_def window_fetch_def posts_only_refl posts_only_one
      split: sum.splits bool.splits prod.splits)

lemma postMedia_posts: "P activity \<Longrightarrow> posts_only P log (snd (postMedia net a activity f i log))"
  by (auto simp: postMedia_def window_fetch_def posts_only_refl posts_only_media
      split: sum.splits bool.splits prod.splits)

lemma post_built_posts:
  "(\<And>act. built = Inr act \<Longrightarrow> P act) \<Longrightarrow> posts_only P log (snd (post_built net a built log))"
  by (cases built) (simp_all add: post_built_def posts_only_refl postActivity_posts)

lemma accept_actor: "accept_activity a f = Inr act \<Longrightarrow> getq act ''actor'' = getq (actor a) ''id''"
  by (auto simp: accept_activity_def bindE_Inr dest: getp_Inr)

lemma add_actor: "add_activity a x t = Inr act \<Longrightarrow> getq act ''actor'' = getq (actor a) ''id''"
  by (auto simp: add_activity_def bindE_Inr dest: getp_Inr)

lemma arrive_actor: "arrive_activity a p = Inr act \<Longrightarrow> getq act ''actor'' = getq (actor a) ''id''"
  by (auto simp: arrive_activity_def bindE_Inr Let_def dest: getp_Inr)

lemma leave_actor: "leave_activity a p = Inr act \<Longrightarrow> getq act ''actor'' = getq (actor a) ''id''"
  by (auto simp: leave_activity_def bindE_Inr Let_def dest: getp_Inr)

lemma block_actor: "block_activity a p = Inr act \<Longrightarrow> getq act ''actor'' = getq (actor a) ''id''"
  by (auto simp: block_activity_def bindE_Inr dest: getp_Inr)

lemma create_actor: "create_activity a p = Inr act \<Longrightarrow> getq act ''actor'' = getq (actor a) ''id''"
  by (auto simp: create_activity_def bindE_Inr dest: getp_Inr)

lemma follow_actor: "follow_activity a p = Inr act \<Longrightarrow> getq act ''actor'' = getq (actor a) ''id''"
  by (auto simp: follow_activity_def bindE_Inr dest: getp_Inr)

lemma reject_actor: "reject_activity a p q = Inr act \<Longrightarrow> getq act ''actor'' = getq (actor a) ''id''"
  by (auto simp: reject_activity_def bindE_Inr dest: getp_Inr)

lemma undo_actor: "undo_activity a p = Inr act \<Longrightarrow> getq act ''actor'' = getq (actor a) ''id''"
  by (auto simp: undo_activity_def bindE_Inr dest: getp_Inr)

lemma updateProfile_actor: "updateProfile_activity a p = Inr act \<Longrightarrow> getq act ''actor'' = getq (actor a) ''id''"
  by (auto simp: updateProfile_activity_def bindE_Inr dest: getp_Inr)

lemma create_log: "snd (create net a object log) = snd (post_built net a (create_activity a object) log)"
  by (auto simp: create_def split: prod.splits sum.splits)

lemma addressed_object_fields:
  assumes "addressed_object a h field v typ to audience summary = Inr (obj, h')"
     and "field \<noteq> ''actor''" "field \<noteq> ''attributedTo''"
  shows "getq obj ''actor'' = Undefined \<and> getq obj ''attributedTo'' = getq (actor a) ''id''"
  using assms
  by (auto simp: addressed_object_def bindE_Inr Let_def dest: getp_Inr)

lemma post_addressed_posts:
  assumes "\<And>obj h'. built = Inr (obj, h') \<Longrightarrow> P obj"
  shows "posts_only P log (snd (snd (post_addressed net a built h log)))"
proof (cases built)
  case (Inl e)
  then show ?thesis by (simp add: post_addressed_def posts_only_refl)
next
  case (Inr p)
  obtain obj h' where p: "p = (obj, h')" by (cases p)
  with Inr assms have "P obj" by simp
  then have "posts_only P log (snd (postActivity net a obj log))" by (rule postActivity_posts)
  with Inr p show ?thesis by (auto simp add: post_addressed_def split: prod.splits)
qed

text \<open>
  Claim C2 says that every posting operation sends an object whose \<open>actor\<close> is the session
  actor's id. \<open>note\<close> (like \<open>image\<close>, \<open>video\<close> and \<open>model\<close>) posts a bare object: it has no
  \<open>actor\<close> property, the session actor's id is its \<open>attributedTo\<close>.
\<close>

theorem note_posts_no_actor:
  "map (\<lambda>b. getq b ''actor'')
     (posted (snd (snd (note_post accepting_net session [[]] (Str ''hi'') 0 (Str ''friends'') Undefined []))))
     = [Undefined]
   \<and> getq (actor session) ''id'' = Str ''https://home.example/u/alice''"
  by (simp add: note_post_def post_addressed_def addressed_object_def slice_def push_def
       post_simps session_def alice_def accepting_net_def created_response_def)

text \<open>
  Claim C2 as amended: each of \<open>accept\<close>, \<open>add\<close>, \<open>arrive\<close>, \<open>leave\<close>, \<open>block\<close>, \<open>create\<close>,
  \<open>follow\<close>, \<open>reject\<close>, \<open>undo\<close> and \<open>updateProfile\<close> sends at most one object, whose \<open>actor\<close> is
  the session actor's id; each of \<open>note\<close>, \<open>image\<close>, \<open>video\<close> and \<open>model\<close> sends at most one
  object, which has no \<open>actor\<close> and whose \<open>attributedTo\<close> is the session actor's id.
\<close>

theorem posted_actor_or_attribution:
  "posts_only (\<lambda>b. getq b ''actor'' = getq (actor a) ''id'') log (snd (accept net a follow_arg log))
   \<and> posts_only (\<lambda>b. getq b ''actor'' = getq (actor a) ''id'') log (snd (add net a activity target log))
   \<and> posts_only (\<lambda>b. getq b ''actor'' = getq (actor a) ''id'') log (snd (arrive net a place_arg log))
   \<and> posts_only (\<lambda>b. getq b ''actor'' = getq (actor a) ''id'') log (snd (leave net a place_arg log))
   \<and> posts_only (\<lambda>b. getq b ''actor'' = getq (actor a) ''id'') log (snd (block net a blockeeId log))
   \<and> posts_only (\<lambda>b. getq b ''actor'' = getq (actor a) ''id'') log (snd (create net a object log))
   \<and> posts_only (\<lambda>b. getq b ''actor'' = getq (actor a) ''id'') log (snd (follow net a targetId log))
   \<and> posts_only (\<lambda>b. getq b ''actor'' = getq (actor a) ''id'') log (snd (reject net a objectId recipientId log))
   \<and> posts_only (\<lambda>b. getq b ''actor'' = getq (actor a) ''id'') log (snd (undo net a activity log))
   \<and> posts_only (\<lambda>b. getq b ''actor'' = getq (actor a) ''id'') log (snd (updateProfile net a update log))
   \<and> posts_only (\<lambda>b. getq b ''actor'' = Undefined \<and> getq b ''attributedTo'' = getq (actor a) ''id'')
        log (snd (snd (note_post net a h content to audience summary log)))
   \<and> posts_only (\<lambda>b. getq b ''actor'' = Undefined \<and> getq b ''attributedTo'' = getq (actor a) ''id'')
        log (snd (snd (image_post net a h url_arg to audience summary log)))
   \<and> posts_only (\<lambda>b. getq b ''actor'' = Undefined \<and> getq b ''attributedTo'' = getq (actor a) ''id'')
        log (snd (snd (video net a h url_arg to audience summary log)))
   \<and> posts_only (\<lambda>b. getq b ''actor'' = Undefined \<and> getq b ''attributedTo'' = getq (actor a) ''id'')
        log (snd (snd (model net a h name glb icon to audience log)))"
proof -
  have m: "posts_only (\<lambda>b. getq b ''actor'' = Undefined \<and> getq b ''attributedTo'' = getq (actor a) ''id'')
        log (snd (snd (model net a h name glb icon to audience log)))"
  proof (cases "addressed_object a h ''name'' name ''Model'' to audience Undefined")
    case (Inl e)
    then show ?thesis by (simp add: model_def posts_only_refl)
  next
    case (Inr p)
    obtain obj h' where p: "p = (obj, h')" by (cases p)
    with Inr have "getq obj ''actor'' = Undefined \<and> getq obj ''attributedTo'' = getq (actor a) ''id''"
      by (auto dest!: addressed_object_fields)
    then have "posts_only (\<lambda>b. getq b ''actor'' = Undefined \<and> getq b ''attributedTo'' = getq (actor a) ''id'')
        log (snd (postMedia net a obj glb icon log))" by (rule postMedia_posts)
    with Inr p show ?thesis by (auto simp add: model_def split: prod.splits)
  qed
  show ?thesis
    by (intro conjI m)
      (simp_all add: accept_def add_def arrive_def leave_def block_def create_log follow_def reject_def
        undo_def updateProfile_def note_post_def image_post_def video_def
        post_built_posts accept_actor add_actor arrive_actor leave_actor block_actor create_actor
        follow_actor reject_actor undo_actor updateProfile_actor
        post_addressed_posts addressed_object_fields)
qed

theorem posted_actor_or_attribution_witness:
  "new_posts [] (snd (follow accepting_net session (Str ''https://away.example/u/bob'') []))
     = [Obj [(''type'', Str ''Follow''), (''actor'', Str ''https://home.example/u/alice''),
             (''object'', Str ''https://away.example/u/bob''), (''to'', Str ''https://away.example/u/bob''),
             (''summary'', Str ''<span>Sent you a friend request</span>'')]]
   \<and> posts_only (\<lambda>b. getq b ''actor'' = getq (actor session) ''id'') []
        (snd (follow accepting_net session (Str ''https://away.example/u/bob'') []))"
  using posted_actor_or_attribution
    [where a = session and log = "[]" and net = accepting_net and targetId = "Str ''https://away.example/u/bob''"]
  by (simp add: follow_def follow_activity_def post_built_def post_simps session_def alice_def
       accepting_net_def created_response_def new_posts_def)

section \<open>Posting with an untrusted outbox\<close>

text \<open>
  What the code does: when its own test \<open>this.trustedIRI(this.actor.outbox)\<close> is false,
  \<open>postActivity\<close> fails with the error \<open>Invalid outbox address\<close> and issues no request.
\<close>

lemma postActivity_prefix_untrusted:
  assumes "bindE (getp (actor a) ''outbox'') (trustedIRI a) = Inr False"
  shows "postActivity net a activity log = (Inl (Error ''Invalid outbox address''), log)"
proof (cases "getp (actor a) ''outbox''")
  case (Inl e)
  with assms show ?thesis by simp
next
  case (Inr ob)
  with assms have "trustedIRI a ob = Inr False" by simp
  with Inr show ?thesis by (simp add: postActivity_def)
qed

text \<open>
  An actor without an \<open>outbox\<close>, like the empty actor of the instance made before login:
  the trust test itself throws a TypeError, not the error above; no request is issued.
\<close>

lemma postActivity_without_outbox:
  assumes "getq (actor a) ''outbox'' = Undefined"
  shows "postActivity net a activity log = (Inl TypeError, log)"
  using assms by (cases "actor a") (simp_all add: postActivity_def)

text \<open>
  Claim C3 says that \<open>postActivity\<close> fails with the invalid-outbox error, without network
  I/O, whenever the outbox is not trusted. The test is the prefix test of \<open>trustedIRI\<close>:
  with the home server \<open>https://immers.space\<close>, an outbox on the host
  \<open>immers.space.evil.example\<close>, whose origin is neither the home nor the local origin,
  passes it, and the activity is posted there with the bearer token.
\<close>

theorem postActivity_posts_to_foreign_outbox:
  "\<not> origin_trusted lookalike ''https://immers.space.evil.example/u/alice/outbox''
   \<and> postActivity accepting_net lookalike (Obj [(''type'', Str ''Follow'')]) []
     = (Inr (Str ''https://home.example/s/new''),
        [Fetch \<lparr>url = Str ''https://immers.space.evil.example/u/alice/outbox'', meth = ''POST'',
                headers = [(''Content-Type'', ''application/activity+json''),
                           (''Authorization'', ''Bearer t0k'')],
                body = JsonBody (Obj [(''type'', Str ''Follow'')])\<rparr>])"
  by (simp add: lookalike_def origin_trusted_def iri_origin_def post_simps accepting_net_def
      created_response_def)

section \<open>Messages from follow-backs\<close>

text \<open>
  Claim C8 says that a \<open>Follow\<close> with an in-reply-to marker never produces a message. The
  \<open>Follow\<close> branch then assigns nothing, so the content assigned before the \<open>switch\<close>,
  \<open>activity.object?.content || activity.content\<close>, stays: a follow-back that carries
  content comes out as a message of type \<open>other\<close>.
\<close>

theorem follow_back_with_content_is_a_message:
  "map_sum id (map_option (\<lambda>m. (msg_type m, unsafeMessageHTML m, messageHTML m)))
     (MessageFromActivity demo_env follow_back)
   = Inr (Some (''other'', Str ''hello'', ''hello''))"
  by (simp add: message_simps follow_back_def bob_def)

text \<open>Without content, a follow-back produces no message.\<close>

lemma follow_back_without_content:
  assumes "getq activity ''type'' = Str ''Follow''" and "truthy (getq activity ''inReplyTo'')"
    and "\<not> truthy (getq (getq activity ''object'') ''content'')"
    and "\<not> truthy (getq activity ''content'')"
    and "MessageFromActivity env activity = Inr r"
  shows "r = None"
  using assms
  by (auto simp: MessageFromActivity_def message_switch_def bindE_Inr js_or_def split: if_splits)

section \<open>Presence without the location scope\<close>

lemma fetch_json_posted: "fetch_json net u log = (r, log') \<Longrightarrow> posted log' = posted log"
  by (auto simp: fetch_json_def window_fetch_def posted_append split: sum.splits prod.splits)

lemma setPlace_frame:
  assumes "setPlaceFromDestination env net c dest log = (r, c', log')"
  shows "connected c' = connected c \<and> credential c' = credential c \<and> posted log' = posted log"
  using assms
  by (cases dest)
    (auto simp: setPlaceFromDestination_def set_place_def dest: fetch_json_posted
      split: sum.splits prod.splits option.splits if_splits)

lemma enter_online_unauthorized:
  assumes "connected c" and "credential c = Some scopes" and "scope_postLocation env \<notin> set scopes"
  shows "enter_online env net c log = (Inr (), c, log @ [not_authorized_info])"
  using assms by (simp add: enter_online_def)

text \<open>
  Claim C9 says that \<open>enter\<close>, \<open>exit\<close> and \<open>move\<close>, called while logged in without the
  location scope, never fail. \<open>enter\<close> with a destination updates the place before it
  tests the login and the scope; when the destination is a URL and its fetch is rejected,
  \<open>enter\<close> fails with that error.
\<close>

theorem enter_fails_when_place_fetch_fails:
  "connected logged_in \<and> credential logged_in = Some [''viewFriends'', ''viewPublic'']
   \<and> scope_postLocation demo_env \<notin> set [''viewFriends'', ''viewPublic'']
   \<and> enter demo_env failing_net logged_in (DestUrl ''https://venue.example/place.json'') []
        = (Inl TypeError, logged_in,
           [Fetch \<lparr>url = Str ''https://venue.example/place.json'', meth = ''GET'',
                   headers = [(''Accept'', ''application/activity+json'')], body = NoBody\<rparr>])"
  by (simp add: logged_in_def demo_env_def enter_def setPlaceFromDestination_def fetch_json_def
      window_fetch_def failing_net_def JSONLDMime_def)

text \<open>
  Claim C9 as amended: logged in and without the location scope, \<open>exit\<close> and \<open>move\<close>, and
  \<open>enter\<close> without a destination, issue no request, log one line and return normally,
  leaving the client as it was. \<open>enter\<close> with a destination first sets the place: if that
  fails, \<open>enter\<close> fails with the same error; otherwise it logs the line and returns
  normally, with the place updated. In no case is an activity posted.
\<close>

theorem unauthorized_presence_posts_nothing:
  assumes "connected c" and "credential c = Some scopes" and "scope_postLocation env \<notin> set scopes"
  shows "exit env net c log = (Inr (), c, log @ [not_authorized_info])
     \<and> move env net c dest log = (Inr (), c, log @ [not_authorized_info])
     \<and> (\<not> dest_truthy dest \<longrightarrow> enter env net c dest log = (Inr (), c, log @ [not_authorized_info]))
     \<and> (dest_truthy dest \<longrightarrow>
          enter env net c dest log =
            (case setPlaceFromDestination env net c dest log of
               (Inl e, c', log') \<Rightarrow> (Inl e, c', log')
             | (Inr u, c', log') \<Rightarrow> (Inr (), c', log' @ [not_authorized_info])))
     \<and> posted (snd (snd (enter env net c dest log))) = posted log"
proof -
  have x: "exit env net c log = (Inr (), c, log @ [not_authorized_info])"
    using assms by (simp add: exit_def)
  have m: "move env net c dest log = (Inr (), c, log @ [not_authorized_info])"
    using assms by (simp add: move_def)
  have e0: "enter env net c dest log = (Inr (), c, log @ [not_authorized_info])" if "\<not> dest_truthy dest"
    using that assms by (simp add: enter_def enter_online_unauthorized)
  obtain r c' log' where sp: "setPlaceFromDestination env net c dest log = (r, c', log')"
    by (cases "setPlaceFromDestination env net c dest log") auto
  from setPlace_frame[OF sp] assms have c': "connected c'" "credential c' = Some scopes"
    and p: "posted log' = posted log" by simp_all
  have e1: "enter env net c dest log =
            (case setPlaceFromDestination env net c dest log of
               (Inl e, c', log') \<Rightarrow> (Inl e, c', log')
             | (Inr u, c', log') \<Rightarrow> (Inr (), c', log' @ [not_authorized_info]))" if "dest_truthy dest"
    using that sp c' assms(3) by (cases r) (simp_all add: enter_def enter_online_unauthorized)
  have "posted (snd (snd (enter env net c dest log))) = posted log"
  proof (cases "dest_truthy dest")
    case True
    with e1 sp p show ?thesis
      by (cases r) (simp_all add: posted_append not_authorized_info_def)
  next
    case False
    with e0 show ?thesis by (simp add: posted_append not_authorized_info_def)
  qed
  with x m e0 e1 show ?thesis by blast
qed

theorem unauthorized_presence_posts_nothing_witness:
  "connected logged_in \<and> credential logged_in = Some [''viewFriends'', ''viewPublic'']
   \<and> scope_postLocation demo_env \<notin> set [''viewFriends'', ''viewPublic'']
   \<and> exit demo_env accepting_net logged_in [] = (Inr (), logged_in, [not_authorized_info])
   \<and> move demo_env accepting_net logged_in (DestObj [(''name'', Str ''Lobby'')]) []
        = (Inr (), logged_in, [not_authorized_info])
   \<and> enter demo_env accepting_net logged_in NoDest [] = (Inr (), logged_in, [not_authorized_info])"
  using unauthorized_presence_posts_nothing
    [of logged_in "[''viewFriends'', ''viewPublic'']" demo_env accepting_net "[]" NoDest]
    unauthorized_presence_posts_nothing
    [of logged_in "[''viewFriends'', ''viewPublic'']" demo_env accepting_net "[]"
        "DestObj [(''name'', Str ''Lobby'')]"]
  by (simp add: logged_in_def demo_env_def)

section \<open>Paging through the inbox and the outbox\<close>

text \<open>A root without the property \<open>orderedItems\<close> (or with a falsy one): the first page is fetched.\<close>

lemma collection_page_first:
  assumes "getp (actor a) k = Inr iri" and "getObject net a iri log = (Inr root, log1)"
    and "\<not> truthy (getq root ''orderedItems'')" and "truthy (getq root ''first'')"
    and "getObject net a (getq root ''first'') log1 = (Inr page, log2)"
  shows "collection_page net a Null k log = (Inr page, log2)"
proof -
  from assms(4) have "getp root ''orderedItems'' = Inr (getq root ''orderedItems'')"
    by (rule truthy_getq_getp)
  with assms show ?thesis by (simp add: collection_page_def)
qed

text \<open>A falsy cursor other than \<open>null\<close>: nothing is fetched.\<close>

lemma collection_page_exhausted:
  assumes "cursor \<noteq> Null" and "\<not> truthy cursor"
  shows "collection_page net a cursor k log = (Inr Undefined, log)"
  using assms by (simp add: collection_page_def)

text \<open>An array is truthy, also the empty one: a root with inline items is returned as it is.\<close>

lemma collection_page_inline:
  assumes "getp (actor a) k = Inr iri" and "getObject net a iri log = (Inr root, log1)"
    and "getq root ''orderedItems'' = Arr items"
  shows "collection_page net a Null k log = (Inr root, log1)"
proof -
  from assms(3) have "getp root ''orderedItems'' = Inr (Arr items)" by (cases root) auto
  with assms show ?thesis by (simp add: collection_page_def)
qed

lemma paged_run:
  "inbox paged_net session []
     = (Inr box_page, session\<lparr>nextInboxPage := Undefined\<rparr>,
        [get_request ''https://home.example/u/alice/inbox'', get_request ''https://home.example/page/1''])"
  "outbox paged_net session []
     = (Inr box_page, session\<lparr>nextOutboxPage := Undefined\<rparr>,
        [get_request ''https://home.example/u/alice/outbox'', get_request ''https://home.example/page/1''])"
  by (simp_all add: inbox_def outbox_def collection_page_def fetch_simps session_def alice_def
      paged_net_def box_root_def box_page_def get_request_def)

text \<open>
  Claim C6 says that on the first call a collection root that has no inline items but
  carries a \<open>first\<close> reference makes the call return the items of the first page. The
  code tests \<open>!col.orderedItems\<close>, and an empty array is truthy: on a root with
  \<open>orderedItems: []\<close> and a \<open>first\<close> reference, \<open>inbox\<close> and \<open>outbox\<close> return the root, with
  no items, after one fetch; the cursor becomes \<open>undefined\<close>, so that the next call
  fetches nothing and the first page, which has an item, is never read.
\<close>

theorem paginator_skips_first_page_of_empty_root:
  "getq empty_root ''orderedItems'' = Arr []
   \<and> getq empty_root ''first'' = Str ''https://home.example/page/1''
   \<and> inbox empty_root_net session []
     = (Inr empty_root, session\<lparr>nextInboxPage := Undefined\<rparr>,
        [get_request ''https://home.example/u/alice/inbox''])
   \<and> inbox empty_root_net (session\<lparr>nextInboxPage := Undefined\<rparr>)
        [get_request ''https://home.example/u/alice/inbox'']
     = (Inr Undefined, session\<lparr>nextInboxPage := Undefined\<rparr>,
        [get_request ''https://home.example/u/alice/inbox''])
   \<and> outbox empty_root_net session []
     = (Inr empty_root, session\<lparr>nextOutboxPage := Undefined\<rparr>,
        [get_request ''https://home.example/u/alice/outbox''])
   \<and> outbox empty_root_net (session\<lparr>nextOutboxPage := Undefined\<rparr>)
        [get_request ''https://home.example/u/alice/outbox'']
     = (Inr Undefined, session\<lparr>nextOutboxPage := Undefined\<rparr>,
        [get_request ''https://home.example/u/alice/outbox''])"
  by (simp add: inbox_def outbox_def collection_page_def fetch_simps session_def alice_def
      empty_root_net_def empty_root_def get_request_def)

section \<open>Values that print, actors that have a profile\<close>

lemma sequenceE_Inl: "sequenceE ms = Inl e \<Longrightarrow> Inl e \<in> set ms"
proof (induction ms)
  case Nil
  then show ?case by simp
next
  case (Cons m ms)
  show ?case
  proof (cases m)
    case (Inl e1)
    with Cons.prems show ?thesis by simp
  next
    case (Inr x)
    with Cons.prems have "sequenceE ms = Inl e" by (cases "sequenceE ms") auto
    with Cons.IH show ?thesis by simp
  qed
qed

lemma to_string_Inl: "to_string v = Inl e \<Longrightarrow> e = TypeError"
proof (induction v rule: to_string.induct)
  case (5 xs)
  from 5(2) have "sequenceE (map (\<lambda>x. if x = Undefined \<or> x = Null then Inr [] else to_string x) xs) = Inl e"
    by (cases "sequenceE (map (\<lambda>x. if x = Undefined \<or> x = Null then Inr [] else to_string x) xs)") auto
  then have "Inl e \<in> set (map (\<lambda>x. if x = Undefined \<or> x = Null then Inr [] else to_string x) xs)"
    by (rule sequenceE_Inl)
  then obtain x where x: "x \<in> set xs" "(if x = Undefined \<or> x = Null then Inr [] else to_string x) = Inl e"
    by auto
  then have "\<not> (x = Undefined \<or> x = Null)" "to_string x = Inl e" by (auto split: if_splits)
  with 5(1) x(1) show ?case by blast
qed (auto split: if_splits)

lemma prints_Inr: "prints v \<Longrightarrow> \<exists>s. to_string v = Inr s"
  by (cases "to_string v") (auto simp: prints_def)

lemma not_prints: "\<not> prints v \<Longrightarrow> to_string v = Inl TypeError"
  by (cases "to_string v") (auto simp: prints_def dest: to_string_Inl)

lemma prints_Str: "prints (Str s)"
  by (simp add: prints_def)

lemma prints_Undefined: "prints Undefined"
  by (simp add: prints_def)

lemma sanitize_prints: "prints v \<Longrightarrow> \<exists>s. sanitize env v = Inr s"
  by (auto simp: sanitize_def dest: prints_Inr)

lemma actor_ok_profile: "actor_ok env act \<Longrightarrow> \<exists>p. ProfileFromActor env act = Inr p"
  by (auto simp: actor_ok_def ProfileFromActor_def dest: prints_Inr)

lemma not_actor_ok: "\<not> actor_ok env act \<Longrightarrow> ProfileFromActor env act = Inl TypeError"
  by (auto simp: actor_ok_def ProfileFromActor_def split: option.splits dest: not_prints)

section \<open>Classifying one activity\<close>


text \<open>The status of an activity whose type is a string, when a profile can be made.\<close>

lemma status_returns:
  assumes ty: "getq activity ''type'' = Str t"
    and sw: "status_switch activity (getq (getq activity ''target'') ''name'')
               (getq (getq activity ''target'') ''url'') = Inr (st, str, html, act)"
    and ok: "actor_ok env act"
  shows "\<exists>fs. FriendStatusFromActivity env activity = Inr fs \<and> status fs = st
           \<and> isOnline fs = (st = ''friend-online'')
           \<and> locationName fs = getq (getq activity ''target'') ''name''
           \<and> locationURL fs = getq (getq activity ''target'') ''url''
           \<and> ProfileFromActor env act = Inr (fs_profile fs)
           \<and> source_activity fs = activity"
proof -
  from ty have tg: "getp activity ''target'' = Inr (getq activity ''target'')"
    by (rule getq_Str_getp)
  from actor_ok_profile[OF ok] obtain p where p: "ProfileFromActor env act = Inr p" by blast
  from tg sw p show ?thesis
    by (simp add: FriendStatusFromActivity_def sanitize_def)
qed

text \<open>What the \<open>switch\<close> yields, row by row.\<close>

lemma status_switch_arrive:
  assumes "getq activity ''type'' = Str t" and "toLowerCase t = ''arrive''"
    and "prints name" and "prints loc"
  shows "\<exists>str html. status_switch activity name loc
           = Inr (''friend-online'', str, html, getq activity ''actor'')"
proof -
  from assms(3) obtain n where "to_string name = Inr n" by (auto dest: prints_Inr)
  moreover from assms(4) obtain u where "to_string loc = Inr u" by (auto dest: prints_Inr)
  ultimately show ?thesis using assms(1,2) by (simp add: status_switch_def)
qed



lemma getp_defined: "v \<noteq> Undefined \<Longrightarrow> v \<noteq> Null \<Longrightarrow> getp v k = Inr (getq v k)"
  by (cases v) auto

lemma getp_Inr_defined: "getp v k = Inr w \<Longrightarrow> v \<noteq> Undefined \<and> v \<noteq> Null"
  by (cases v) auto



text \<open>What a returning \<open>switch\<close> tells about the activity.\<close>

lemma status_switch_Inr:
  assumes "status_switch activity name loc = Inr (st, str, html, act)"
  shows "act = subject activity
     \<and> st \<in> {''friend-online'', ''friend-offline'', ''request-received'', ''request-sent'', ''none''}
     \<and> (\<exists>t. getq activity ''type'' = Str t
          \<and> (toLowerCase t = ''arrive'' \<longrightarrow> prints name \<and> prints loc)
          \<and> (toLowerCase t = ''follow'' \<longrightarrow>
                getq activity ''actor'' \<noteq> Undefined \<and> getq activity ''actor'' \<noteq> Null))"
proof (cases "getq activity ''type''")
  case (Str t)
  show ?thesis
  proof (cases "toLowerCase t = ''follow''")
    case True
    with Str assms obtain aid where aid: "getp (getq activity ''actor'') ''id'' = Inr aid"
      by (cases "getp (getq activity ''actor'') ''id''") (auto simp: status_switch_def)
    from aid have d: "getq activity ''actor'' \<noteq> Undefined \<and> getq activity ''actor'' \<noteq> Null"
      by (rule getp_Inr_defined)
    from aid have "aid = getq (getq activity ''actor'') ''id''" by (rule getp_Inr)
    with Str True assms aid d show ?thesis
      by (auto simp: status_switch_def subject_def split: if_splits)
  next
    case False
    with Str assms show ?thesis
      by (auto simp: status_switch_def subject_def bindE_Inr prints_def split: if_splits)
  qed
qed (use assms in \<open>simp_all add: status_switch_def\<close>)

lemma status_switch_Inl:
  assumes "status_switch activity name loc = Inl e"
  shows "e = TypeError"
proof (cases "getq activity ''type''")
  case (Str t)
  show ?thesis
  proof (cases "toLowerCase t = ''arrive''")
    case True
    show ?thesis
    proof (cases "to_string name")
      case (Inl e1)
      with Str True assms have "e = e1" by (simp add: status_switch_def)
      with Inl show ?thesis by (auto dest: to_string_Inl)
    next
      case (Inr n)
      show ?thesis
      proof (cases "to_string loc")
        case (Inl e1)
        with Str True Inr assms have "e = e1" by (simp add: status_switch_def)
        with Inl show ?thesis by (auto dest: to_string_Inl)
      next
        case Inr2: (Inr u)
        with Str True Inr assms show ?thesis by (simp add: status_switch_def)
      qed
    qed
  next
    case False
    show ?thesis
    proof (cases "getp (getq activity ''actor'') ''id''")
      case (Inl e1)
      then have "e1 = TypeError" by (rule getp_Inl)
      with Str False Inl assms show ?thesis
        by (auto simp: status_switch_def split: if_splits)
    next
      case (Inr aid)
      with Str False assms show ?thesis
        by (auto simp: status_switch_def split: if_splits)
    qed
  qed
qed (use assms in \<open>simp_all add: status_switch_def\<close>)

lemma status_ok_switch:
  assumes "status_ok env activity"
  shows "\<exists>st str html. status_switch activity (getq (getq activity ''target'') ''name'')
             (getq (getq activity ''target'') ''url'') = Inr (st, str, html, subject activity)"
proof -
  let ?name = "getq (getq activity ''target'') ''name''"
  let ?loc = "getq (getq activity ''target'') ''url''"
  from assms obtain t where ty: "getq activity ''type'' = Str t"
    by (auto simp: status_ok_def split: jsval.splits)
  with assms have arr: "toLowerCase t = ''arrive'' \<longrightarrow> prints ?name \<and> prints ?loc"
    and fol: "toLowerCase t = ''follow'' \<longrightarrow>
                getq activity ''actor'' \<noteq> Undefined \<and> getq activity ''actor'' \<noteq> Null"
    by (simp_all add: status_ok_def)
  show ?thesis
  proof (cases "status_switch activity ?name ?loc")
    case (Inl e)
    show ?thesis
    proof (cases "toLowerCase t = ''arrive''")
      case True
      with arr ty status_switch_arrive[of activity t ?name ?loc] Inl show ?thesis by auto
    next
      case na: False
      show ?thesis
      proof (cases "toLowerCase t = ''follow''")
        case True
        with fol have "getp (getq activity ''actor'') ''id'' = Inr (getq (getq activity ''actor'') ''id'')"
          by (simp add: getp_defined)
        with ty True Inl show ?thesis by (simp add: status_switch_def split: if_splits)
      next
        case False
        with ty na Inl show ?thesis by (simp add: status_switch_def split: if_splits)
      qed
    qed
  next
    case (Inr r)
    obtain st str html act where r: "r = (st, str, html, act)" by (cases r) auto
    with Inr status_switch_Inr[of activity ?name ?loc st str html act] show ?thesis by auto
  qed
qed

lemma ProfileFromActor_Inl: "ProfileFromActor env act = Inl e \<Longrightarrow> e = TypeError"
  by (cases "actor_ok env act") (auto dest: actor_ok_profile not_actor_ok)

lemma ProfileFromActor_Inr: "ProfileFromActor env act = Inr p \<Longrightarrow> actor_ok env act"
  by (cases "actor_ok env act") (auto dest: not_actor_ok)

lemma status_ok_returns:
  assumes "status_ok env activity"
  shows "\<exists>fs. FriendStatusFromActivity env activity = Inr fs
           \<and> status fs \<in> {''friend-online'', ''friend-offline'', ''request-received'',
                            ''request-sent'', ''none''}
           \<and> ProfileFromActor env (subject activity) = Inr (fs_profile fs)"
proof -
  from assms obtain t where ty: "getq activity ''type'' = Str t"
    by (auto simp: status_ok_def split: jsval.splits)
  with assms have ok: "actor_ok env (subject activity)" by (simp add: status_ok_def)
  from status_ok_switch[OF assms] obtain st str html where
    sw: "status_switch activity (getq (getq activity ''target'') ''name'')
             (getq (getq activity ''target'') ''url'') = Inr (st, str, html, subject activity)"
    by blast
  from status_switch_Inr[OF sw]
  have five: "st \<in> {''friend-online'', ''friend-offline'', ''request-received'', ''request-sent'', ''none''}"
    by (rule conjunct1[OF conjunct2])
  from status_returns[OF ty sw ok] obtain fs where
    fs: "FriendStatusFromActivity env activity = Inr fs" "status fs = st"
      "ProfileFromActor env (subject activity) = Inr (fs_profile fs)"
    by blast
  have mem: "status fs \<in> {''friend-online'', ''friend-offline'', ''request-received'',
                            ''request-sent'', ''none''}"
    unfolding fs(2) by (rule five)
  show ?thesis
  proof (intro exI conjI)
    show "FriendStatusFromActivity env activity = Inr fs" by (rule fs(1))
    show "status fs \<in> {''friend-online'', ''friend-offline'', ''request-received'',
                            ''request-sent'', ''none''}" by (rule mem)
    show "ProfileFromActor env (subject activity) = Inr (fs_profile fs)" by (rule fs(3))
  qed
qed

lemma returns_status_ok:
  assumes "FriendStatusFromActivity env activity = Inr fs"
  shows "status_ok env activity"
proof -
  from assms obtain target where tg: "getp activity ''target'' = Inr target"
    by (cases "getp activity ''target''") (auto simp: FriendStatusFromActivity_def)
  then have target: "target = getq activity ''target''" by (rule getp_Inr)
  from assms tg obtain r where
    sw0: "status_switch activity (getq target ''name'') (getq target ''url'') = Inr r"
    by (cases "status_switch activity (getq target ''name'') (getq target ''url'')")
       (auto simp: FriendStatusFromActivity_def)
  obtain st str html act where r: "r = (st, str, html, act)" by (cases r) auto
  from assms tg sw0 r obtain p where p: "ProfileFromActor env act = Inr p"
    by (cases "ProfileFromActor env act") (auto simp: FriendStatusFromActivity_def)
  then have ok: "actor_ok env act" by (rule ProfileFromActor_Inr)
  from sw0 r target
  have "status_switch activity (getq (getq activity ''target'') ''name'')
          (getq (getq activity ''target'') ''url'') = Inr (st, str, html, act)"
    by simp
  from status_switch_Inr[OF this] ok show ?thesis
    by (auto simp: status_ok_def)
qed

lemma FriendStatus_Inl:
  assumes "FriendStatusFromActivity env activity = Inl e"
  shows "e = TypeError"
proof (cases "getp activity ''target''")
  case (Inl e1)
  then have "e1 = TypeError" by (rule getp_Inl)
  with Inl assms show ?thesis by (simp add: FriendStatusFromActivity_def)
next
  case (Inr target)
  show ?thesis
  proof (cases "status_switch activity (getq target ''name'') (getq target ''url'')")
    case (Inl e1)
    then have "e1 = TypeError" by (rule status_switch_Inl)
    with Inl Inr assms show ?thesis by (simp add: FriendStatusFromActivity_def)
  next
    case sw: (Inr r)
    obtain st str html act where r: "r = (st, str, html, act)" by (cases r) auto
    show ?thesis
    proof (cases "ProfileFromActor env act")
      case (Inl e1)
      then have "e1 = TypeError" by (rule ProfileFromActor_Inl)
      with Inl Inr sw r assms show ?thesis by (simp add: FriendStatusFromActivity_def)
    next
      case p: (Inr p)
      with Inr sw r assms show ?thesis
        by (auto simp: FriendStatusFromActivity_def sanitize_def split: if_splits)
    qed
  qed
qed

lemma not_status_ok_throws:
  assumes "\<not> status_ok env activity"
  shows "FriendStatusFromActivity env activity = Inl TypeError"
proof (cases "FriendStatusFromActivity env activity")
  case (Inl e)
  then have "e = TypeError" by (rule FriendStatus_Inl)
  with Inl show ?thesis by simp
next
  case (Inr fs)
  then have "status_ok env activity" by (rule returns_status_ok)
  with assms show ?thesis by simp
qed



section \<open>The friends list\<close>

lemma filterE_not_reject:
  "filterE not_reject xs = Inr ys \<Longrightarrow> ys = filter (\<lambda>x. getq x ''type'' \<noteq> Str ''Reject'') xs"
proof (induction xs arbitrary: ys)
  case Nil
  then show ?case by simp
next
  case (Cons x xs)
  then show ?case
    by (auto simp: bindE_Inr not_reject_def dest!: getp_Inr)
qed

text \<open>The two friends of the collection, as \<open>FriendStatusFromActivity\<close> presents them.\<close>

lemma friends_fetched:
  "friends friends_net session [] = (Inr friends_col, [get_request ''https://home.example/u/alice/friends''])"
  by (simp add: friends_def fetch_simps session_def alice_def friends_net_def get_request_def)

lemma leave_status:
  "\<exists>f. FriendStatusFromActivity (demo_env\<lparr>engine_sort := e\<rparr>) (about ''Leave'' n t) = Inr f
       \<and> status f = ''friend-offline'' \<and> source_activity f = about ''Leave'' n t
       \<and> p_username (fs_profile f) = Str n"
  by (simp add: status_simps about_def person_def here_def)

text \<open>\<open>FriendsSorter\<close> on two entries that are not online and carry \<open>published\<close> strings.\<close>

lemma FriendsSorter_published:
  assumes "status a \<noteq> ''friend-online''" and "status b \<noteq> ''friend-online''"
    and "getq (source_activity a) ''published'' = Str s"
    and "getq (source_activity b) ''published'' = Str t"
  shows "FriendsSorter env a b = Inr (if s = t then 0 else if t < s then - 1 else 1)"
proof -
  from assms(3) have "getp (source_activity a) ''published'' = Inr (Str s)"
    using getq_Str_getp[of "source_activity a" "''published''" s "''published''"] by simp
  moreover from assms(4) have "getp (source_activity b) ''published'' = Inr (Str t)"
    using getq_Str_getp[of "source_activity b" "''published''" t "''published''"] by simp
  ultimately show ?thesis
    using assms(1,2) by (simp add: FriendsSorter_def js_gt_def to_primitive_def)
qed

lemma published_about: "getq (about ty n t) ''published'' = Str t"
  by (simp add: about_def)

lemma stamps_compare:
  "''2022-05-11T10:00:00.500Z'' < ''2022-05-11T10:00:00Z''"
  "\<not> ''2022-05-11T10:00:00Z'' < ''2022-05-11T10:00:00.500Z''"
  "''2022-05-11T10:00:00.500Z'' \<noteq> ''2022-05-11T10:00:00Z''"
  by simp_all

text \<open>
  Claim C5 says that entries tied on the first level come most recent first. Dave left at
  \<open>10:00:00.500\<close>, Carol at \<open>10:00:00\<close>, half a second before him; \<open>FriendsSorter\<close>
  compares the \<open>published\<close> strings with \<open>>\<close>, character by character, and \<open>.\<close> sorts
  before \<open>Z\<close>: the list has Carol, the older entry, first. The compare function is
  consistent on the two entries, so this is the order in every engine \<open>e\<close>.
\<close>

theorem friendsList_older_entry_first:
  "map_sum id (map (\<lambda>f. (status f, p_username (fs_profile f), getq (source_activity f) ''published'')))
     (fst (friendsList (demo_env\<lparr>engine_sort := e\<rparr>) friends_net logged_in []))
   = Inr [(''friend-offline'', Str ''carol'', Str ''2022-05-11T10:00:00Z''),
          (''friend-offline'', Str ''dave'', Str ''2022-05-11T10:00:00.500Z'')]"
proof -
  let ?env = "demo_env\<lparr>engine_sort := e\<rparr>"
  let ?dave = "about ''Leave'' ''dave'' ''2022-05-11T10:00:00.500Z''"
  let ?carol = "about ''Leave'' ''carol'' ''2022-05-11T10:00:00Z''"
  from leave_status[of e "''dave''" "''2022-05-11T10:00:00.500Z''"] obtain d where
    d: "FriendStatusFromActivity ?env ?dave = Inr d" "status d = ''friend-offline''"
      "source_activity d = ?dave" "p_username (fs_profile d) = Str ''dave''"
    by blast
  from leave_status[of e "''carol''" "''2022-05-11T10:00:00Z''"] obtain c where
    c: "FriendStatusFromActivity ?env ?carol = Inr c" "status c = ''friend-offline''"
      "source_activity c = ?carol" "p_username (fs_profile c) = Str ''carol''"
    by blast
  have off: "status d \<noteq> ''friend-online''" "status c \<noteq> ''friend-online''"
    by (simp_all add: d(2) c(2))
  have pub: "getq (source_activity d) ''published'' = Str ''2022-05-11T10:00:00.500Z''"
    "getq (source_activity c) ''published'' = Str ''2022-05-11T10:00:00Z''"
    by (simp_all add: d(3) c(3) published_about)
  have cmp: "FriendsSorter ?env d d = Inr 0" "FriendsSorter ?env c c = Inr 0"
    "FriendsSorter ?env d c = Inr 1" "FriendsSorter ?env c d = Inr (- 1)"
    using FriendsSorter_published[OF off(1) off(1) pub(1) pub(1), of ?env]
      FriendsSorter_published[OF off(2) off(2) pub(2) pub(2), of ?env]
      FriendsSorter_published[OF off(1) off(2) pub(1) pub(2), of ?env]
      FriendsSorter_published[OF off(2) off(1) pub(2) pub(1), of ?env]
    by (simp_all add: stamps_compare)
  have consistent: "consistent_comparefn (FriendsSorter ?env) [d, c]"
    by (simp add: consistent_comparefn_def cf_eq_def cf_lt_def cf_gt_def cmp)
  have sorted: "array_sort ?env (FriendsSorter ?env) [d, c] = Inr [c, d]"
    using consistent by (simp add: array_sort_def cmp)
  have items: "getp friends_col ''orderedItems'' = Inr (Arr [?dave, ?carol])"
    by (simp add: friends_col_def)
  have kept: "filterE not_reject [?dave, ?carol] = Inr [?dave, ?carol]"
    by (simp add: not_reject_def about_def)
  have mapped: "mapE (FriendStatusFromActivity ?env) [?dave, ?carol] = Inr [d, c]"
    by (simp add: d(1) c(1))
  have view: "friends_view ?env [?dave, ?carol] = Inr [c, d]"
    by (simp add: friends_view_def kept mapped sorted del: filterE.simps mapE.simps)
  have "fst (friendsList ?env friends_net logged_in []) = Inr [c, d]"
    by (simp add: friendsList_def logged_in_def friends_fetched items as_array_def mapped view
        del: filterE.simps mapE.simps)
  then show ?thesis
    by (simp add: d c published_about)
qed

section \<open>When the derivations return\<close>

text \<open>
  Claim C7 says that the two derivations never throw. An activity that names no actor
  makes both throw a TypeError (\<open>ProfileFromActor\<close> destructures \<open>undefined\<close>), and the map
  over a batch that contains it throws with it, although the other entry is a chat
  message.
\<close>

theorem derivation_throws_without_actor:
  "MessageFromActivity demo_env anonymous_note = Inl TypeError
   \<and> FriendStatusFromActivity demo_env anonymous_note = Inl TypeError
   \<and> map_sum id (map_option msg_type) (MessageFromActivity demo_env bob_says) = Inr (Some ''chat'')
   \<and> mapE (MessageFromActivity demo_env) [bob_says, anonymous_note] = Inl TypeError
   \<and> mapE (FriendStatusFromActivity demo_env) [bob_says, anonymous_note] = Inl TypeError"
  by (simp add: message_simps anonymous_note_def bob_says_def bob_def FriendStatusFromActivity_def
      status_switch_def toLowerCase_def lower_char_def)

lemma getq_defined_getp: "getq v k \<noteq> Undefined \<Longrightarrow> getp v j = Inr (getq v j)"
  by (cases v) auto

lemma prints_js_or: "prints a \<Longrightarrow> prints b \<Longrightarrow> prints (js_or a b)"
  by (simp add: js_or_def)

lemma timestamp_of_prints: "prints v \<Longrightarrow> \<exists>ts. timestamp_of v = Inr ts"
  by (cases "to_string v") (auto simp: timestamp_of_def prints_def)

text \<open>The \<open>switch\<close> of the message derivation returns when the values it prints convert.\<close>

lemma message_switch_returns:
  assumes "prints (getq activity ''summary'')" and "prints (getq activity ''content'')"
    and "prints (getq (getq activity ''object'') ''content'')"
    and "prints (getq (getq activity ''object'') ''url'')"
  shows "\<exists>ty media murl html. message_switch activity = Inr (ty, media, murl, html)
           \<and> ty \<in> {''chat'', ''media'', ''status'', ''other''} \<and> prints html"
proof -
  from assms(4) obtain u where u: "to_string (getq (getq activity ''object'') ''url'') = Inr u"
    by (auto dest: prints_Inr)
  have h0: "prints (js_or (getq (getq activity ''object'') ''content'') (getq activity ''content''))"
    using assms(2,3) by (simp add: prints_js_or)
  have h1: "prints (js_or (getq activity ''summary'') (Str s))" for s
    using assms(1) by (simp add: prints_js_or prints_Str)
  show ?thesis
    using u h0 h1 assms(1,3) by (simp add: message_switch_def Let_def prints_Str)
qed

lemma message_ok_returns:
  assumes "message_ok env activity"
  shows "\<exists>r. MessageFromActivity env activity = Inr r
           \<and> (case r of None \<Rightarrow> True
               | Some m \<Rightarrow> truthy (unsafeMessageHTML m)
                   \<and> msg_type m \<in> {''chat'', ''media'', ''status'', ''other''})"
proof -
  from assms have ok: "actor_ok env (getq activity ''actor'')" by (simp add: message_ok_def)
  then have "getq activity ''actor'' \<noteq> Undefined" by (simp add: actor_ok_def)
  then have mid: "getp activity ''id'' = Inr (getq activity ''id'')" by (rule getq_defined_getp)
  from actor_ok_profile[OF ok] obtain p where
    p: "ProfileFromActor env (getq activity ''actor'') = Inr p" by blast
  from assms have "prints (getq activity ''published'')" by (simp add: message_ok_def)
  then obtain ts where ts: "timestamp_of (getq activity ''published'') = Inr ts"
    using timestamp_of_prints by blast
  from assms have "prints (getq activity ''summary'')" "prints (getq activity ''content'')"
    "prints (getq (getq activity ''object'') ''content'')"
    "prints (getq (getq activity ''object'') ''url'')"
    by (simp_all add: message_ok_def)
  from message_switch_returns[OF this] obtain ty media murl html where
    sw: "message_switch activity = Inr (ty, media, murl, html)"
    and ty: "ty \<in> {''chat'', ''media'', ''status'', ''other''}" and html: "prints html"
    by blast
  show ?thesis
  proof (cases "truthy html")
    case False
    with mid p ts sw show ?thesis by (simp add: MessageFromActivity_def)
  next
    case True
    from sanitize_prints[OF html] obtain safe where "sanitize env html = Inr safe" by blast
    with True mid p ts sw ty show ?thesis by (simp add: MessageFromActivity_def)
  qed
qed

lemma mapE_total:
  assumes "list_all (\<lambda>x. \<exists>y. f x = Inr y) xs"
  shows "\<exists>ys. mapE f xs = Inr ys \<and> length ys = length xs"
  using assms by (induction xs) auto

lemma mapE_fails:
  assumes "x \<in> set xs" and "f x = Inl e"
  shows "\<exists>e'. mapE f xs = Inl e'"
  using assms
proof (induction xs)
  case Nil
  then show ?case by simp
next
  case (Cons a xs)
  show ?case
  proof (cases "f a")
    case (Inl e1)
    then show ?thesis by simp
  next
    case (Inr y)
    with Cons have "x \<in> set xs" by auto
    with Cons obtain e' where "mapE f xs = Inl e'" by blast
    with Inr show ?thesis by simp
  qed
qed

text \<open>
  Claim C7 as amended. An actor is usable when it is not \<open>undefined\<close> or \<open>null\<close>, its \<open>id\<close>
  parses as a URL and its user name converts to a string.
  \<^item> \<open>MessageFromActivity\<close> returns on every activity whose actor is usable and whose
    \<open>published\<close>, \<open>summary\<close>, \<open>content\<close>, \<open>object.content\<close> and \<open>object.url\<close> convert to
    strings: \<open>null\<close>, or a message with non-empty content and one of the four types.
  \<^item> \<open>FriendStatusFromActivity\<close> returns exactly on the activities whose type is a string
    and whose subject is usable, where an \<open>Arrive\<close> has a target name and URL that
    convert to strings and a \<open>Follow\<close> has an actor; the status is one of the five. On
    every other activity it throws a TypeError.
  \<^item> The map of a derivation over a batch of activities it returns on has as many results
    as the batch has entries; the map of the status derivation over any other batch
    throws.
\<close>

theorem derivations_return_on_usable_activities:
  "(message_ok env activity \<longrightarrow>
      (\<exists>r. MessageFromActivity env activity = Inr r
         \<and> (case r of None \<Rightarrow> True
             | Some m \<Rightarrow> truthy (unsafeMessageHTML m)
                 \<and> msg_type m \<in> {''chat'', ''media'', ''status'', ''other''})))
   \<and> (status_ok env activity \<longrightarrow>
      (\<exists>fs. FriendStatusFromActivity env activity = Inr fs
         \<and> status fs \<in> {''friend-online'', ''friend-offline'', ''request-received'',
                          ''request-sent'', ''none''}))
   \<and> (\<not> status_ok env activity \<longrightarrow> FriendStatusFromActivity env activity = Inl TypeError)
   \<and> (list_all (message_ok env) batch \<longrightarrow>
      (\<exists>ms. mapE (MessageFromActivity env) batch = Inr ms \<and> length ms = length batch))
   \<and> (list_all (status_ok env) batch \<longrightarrow>
      (\<exists>fs. mapE (FriendStatusFromActivity env) batch = Inr fs \<and> length fs = length batch))
   \<and> (\<not> list_all (status_ok env) batch \<longrightarrow>
      (\<exists>e. mapE (FriendStatusFromActivity env) batch = Inl e))"
proof (intro conjI impI)
  assume "message_ok env activity"
  then show "\<exists>r. MessageFromActivity env activity = Inr r
         \<and> (case r of None \<Rightarrow> True
             | Some m \<Rightarrow> truthy (unsafeMessageHTML m)
                 \<and> msg_type m \<in> {''chat'', ''media'', ''status'', ''other''})"
    by (rule message_ok_returns)
next
  assume "status_ok env activity"
  from status_ok_returns[OF this]
  show "\<exists>fs. FriendStatusFromActivity env activity = Inr fs
         \<and> status fs \<in> {''friend-online'', ''friend-offline'', ''request-received'',
                          ''request-sent'', ''none''}"
    by blast
next
  assume "\<not> status_ok env activity"
  then show "FriendStatusFromActivity env activity = Inl TypeError"
    by (rule not_status_ok_throws)
next
  assume "list_all (message_ok env) batch"
  then have "list_all (\<lambda>x. \<exists>y. MessageFromActivity env x = Inr y) batch"
    using message_ok_returns by (fastforce simp: list_all_iff)
  then show "\<exists>ms. mapE (MessageFromActivity env) batch = Inr ms \<and> length ms = length batch"
    by (rule mapE_total)
next
  assume "list_all (status_ok env) batch"
  then have "list_all (\<lambda>x. \<exists>y. FriendStatusFromActivity env x = Inr y) batch"
    using status_ok_returns by (fastforce simp: list_all_iff)
  then show "\<exists>fs. mapE (FriendStatusFromActivity env) batch = Inr fs \<and> length fs = length batch"
    by (rule mapE_total)
next
  assume "\<not> list_all (status_ok env) batch"
  then obtain x where x: "x \<in> set batch" "\<not> status_ok env x" by (auto simp: list_all_iff)
  from x(2) have "FriendStatusFromActivity env x = Inl TypeError" by (rule not_status_ok_throws)
  with x(1) show "\<exists>e. mapE (FriendStatusFromActivity env) batch = Inl e" by (rule mapE_fails)
qed

text \<open>
  A chat note and a follow-back from Bob, a request to Bob with the user named by
  identifier, and a note without an actor.
\<close>

theorem derivations_return_on_usable_activities_witness:
  "message_ok demo_env bob_says \<and> message_ok demo_env follow_back
   \<and> status_ok demo_env bob_says \<and> status_ok demo_env request_to_bob
   \<and> \<not> status_ok demo_env anonymous_note
   \<and> map_sum id (map_option msg_type) (MessageFromActivity demo_env bob_says) = Inr (Some ''chat'')
   \<and> map_sum id status (FriendStatusFromActivity demo_env request_to_bob) = Inr ''request-sent''
   \<and> FriendStatusFromActivity demo_env anonymous_note = Inl TypeError
   \<and> map_sum id length (mapE (MessageFromActivity demo_env) [bob_says, follow_back]) = Inr 2
   \<and> map_sum id length (mapE (FriendStatusFromActivity demo_env) [bob_says, request_to_bob]) = Inr 2
   \<and> (\<exists>e. mapE (FriendStatusFromActivity demo_env) [bob_says, anonymous_note] = Inl e)"
proof -
  have bob_ok: "actor_ok demo_env bob"
    by (simp add: actor_ok_def prints_def demo_env_def simple_host_def bob_def)
  have m: "message_ok demo_env bob_says" "message_ok demo_env follow_back"
    using bob_ok by (simp_all add: message_ok_def prints_def bob_says_def follow_back_def)
  have s: "status_ok demo_env bob_says" "status_ok demo_env request_to_bob"
    using bob_ok
    by (simp_all add: status_ok_def subject_def toLowerCase_def lower_char_def bob_says_def
        request_to_bob_def bob_def)
  have n: "\<not> status_ok demo_env anonymous_note"
    by (simp add: status_ok_def subject_def actor_ok_def toLowerCase_def lower_char_def
        anonymous_note_def)
  have one: "map_sum id (map_option msg_type) (MessageFromActivity demo_env bob_says) = Inr (Some ''chat'')"
    by (simp add: message_simps bob_says_def bob_def)
  have two: "map_sum id status (FriendStatusFromActivity demo_env request_to_bob) = Inr ''request-sent''"
    by (simp add: status_simps request_to_bob_def bob_def)
  from m have lm: "list_all (message_ok demo_env) [bob_says, follow_back]" by simp
  from s have ls: "list_all (status_ok demo_env) [bob_says, request_to_bob]" by simp
  from n have ln: "\<not> list_all (status_ok demo_env) [bob_says, anonymous_note]" by simp
  from derivations_return_on_usable_activities[of demo_env anonymous_note "[bob_says, follow_back]"] n lm
  have t: "FriendStatusFromActivity demo_env anonymous_note = Inl TypeError"
    and "\<exists>ms. mapE (MessageFromActivity demo_env) [bob_says, follow_back] = Inr ms
           \<and> length ms = length [bob_says, follow_back]"
    by blast+
  then obtain ms where ms: "mapE (MessageFromActivity demo_env) [bob_says, follow_back] = Inr ms"
    "length ms = 2"
    by auto
  from derivations_return_on_usable_activities[of demo_env bob_says "[bob_says, request_to_bob]"] ls
  obtain fs where fs: "mapE (FriendStatusFromActivity demo_env) [bob_says, request_to_bob] = Inr fs"
    "length fs = 2"
    by auto
  from derivations_return_on_usable_activities[of demo_env bob_says "[bob_says, anonymous_note]"] ln
  have e: "\<exists>e. mapE (FriendStatusFromActivity demo_env) [bob_says, anonymous_note] = Inl e"
    by blast
  from m s n one two t ms fs e show ?thesis
    by (simp del: mapE.simps)
qed

end
